theory Spec2Isabelle
  imports Complex_Main "HOL-Library.AList"
begin

section \<open>JavaScript values\<close>

text \<open>
  A JavaScript number is an IEEE double. The route registry only compares numbers with
  the constants 180 and 90 and tests them for truthiness; both are exact on the value a
  double denotes, so a finite double is modelled by the real it denotes, next to the
  three special values. Negative zero compares and tests like zero and is \<open>Fin 0\<close>.
\<close>

datatype jsnum = Fin real | PosInf | NegInf | NaN

text \<open>The operator \<open>a < b\<close> on numbers; \<open>a > b\<close> is \<open>js_lt b a\<close>. Every comparison
  with NaN is false.\<close>

fun js_lt :: "jsnum \<Rightarrow> jsnum \<Rightarrow> bool" where
  "js_lt NaN b = False"
| "js_lt a NaN = False"
| "js_lt (Fin x) (Fin y) = (x < y)"
| "js_lt (Fin x) PosInf = True"
| "js_lt NegInf (Fin y) = True"
| "js_lt NegInf PosInf = True"
| "js_lt a b = False"

text \<open>\<open>isNaN\<close> on a number.\<close>

definition isNaN :: "jsnum \<Rightarrow> bool" where
  "isNaN n = (n = NaN)"

text \<open>Runtime values, for the places where the code inspects a value dynamically
  (\<open>Array.isArray\<close>, \<open>typeof\<close>, truthiness) or carries a value of type \<open>unknown\<close>.
  An object is the list of its own enumerable properties.\<close>

datatype jsval =
    JUndefined
  | JNull
  | JBool bool
  | JNum jsnum
  | JStr string
  | JArr "jsval list"
  | JObj "(string \<times> jsval) list"

type_synonym obj = "(string \<times> jsval) list"

text \<open>\<open>Array.isArray(v)\<close>, giving the elements.\<close>

fun as_array :: "jsval \<Rightarrow> jsval list option" where
  "as_array (JArr xs) = Some xs"
| "as_array v = None"

text \<open>\<open>typeof v === 'number'\<close>, giving the number.\<close>

fun as_number :: "jsval \<Rightarrow> jsnum option" where
  "as_number (JNum n) = Some n"
| "as_number v = None"

text \<open>Truthiness of a number and of a value (\<open>!v\<close> is its negation).\<close>

definition num_truthy :: "jsnum \<Rightarrow> bool" where
  "num_truthy n = (n \<noteq> Fin 0 \<and> n \<noteq> NaN)"

fun truthy :: "jsval \<Rightarrow> bool" where
  "truthy JUndefined = False"
| "truthy JNull = False"
| "truthy (JBool b) = b"
| "truthy (JNum n) = num_truthy n"
| "truthy (JStr s) = (s \<noteq> [])"
| "truthy (JArr xs) = True"
| "truthy (JObj ps) = True"

text \<open>Property read \<open>o[k]\<close> on an object, and the assignment \<open>o[k] = v\<close>, which
  overwrites an existing property in place and appends a new one.\<close>

definition get_prop :: "obj \<Rightarrow> string \<Rightarrow> jsval" where
  "get_prop ps k = (case map_of ps k of None \<Rightarrow> JUndefined | Some v \<Rightarrow> v)"

definition set_prop :: "obj \<Rightarrow> string \<Rightarrow> jsval \<Rightarrow> obj" where
  "set_prop ps k v = AList.update k v ps"

text \<open>Object spread \<open>{...target, ...source}\<close>: the properties of the source are
  assigned to the target one after the other.\<close>

fun spread :: "obj \<Rightarrow> obj \<Rightarrow> obj" where
  "spread target [] = target"
| "spread target ((k, v) # src) = spread (set_prop target k v) src"

text \<open>Thrown values. \<open>Error m\<close> is \<open>new Error(m)\<close>. \<open>TypeError\<close> is what the engine
  throws on a property read of \<open>undefined\<close> or \<open>null\<close>, on a call of a missing method and
  on iterating a value that is not iterable; \<open>SyntaxError\<close> is what \<open>response.json()\<close>
  rejects with. \<open>InvalidCoordinates x y\<close> and \<open>TransformationFailed x y\<close> are the two
  errors of the reprojection whose messages print the offending pair.\<close>

datatype error =
    Error string
  | TypeError
  | SyntaxError
  | InvalidCoordinates jsval jsval
  | TransformationFailed jsval jsval

section \<open>Routes (types/route.ts)\<close>

text \<open>
  The interface \<open>Route\<close>. The fields are \<open>id\<close>, \<open>name\<close>, \<open>coordinates\<close>, \<open>color\<close>,
  \<open>lineWidth\<close> and \<open>properties\<close>; the record fields carry the prefix \<open>route_\<close>.
  A field is \<open>None\<close> when the property is absent or \<open>undefined\<close>: the optional fields by
  their type, \<open>name\<close> and \<open>coordinates\<close> because an update may set them to \<open>undefined\<close>
  and \<open>validateRoute\<close> tests \<open>!route.coordinates\<close>. The coordinates are an array whose
  elements are arbitrary values, since \<open>validateRoute\<close> inspects each of them.
\<close>

record route =
  route_id :: string
  route_name :: "string option"
  route_coordinates :: "jsval list option"
  route_color :: "string option"
  route_lineWidth :: "jsnum option"
  route_properties :: "obj option"

text \<open>\<open>Partial<Omit<Route, 'id'>>\<close>: each field is not named (\<open>None\<close>) or named with a
  value, which may be \<open>undefined\<close> (\<open>Some None\<close>).\<close>

record route_updates =
  upd_name :: "string option option"
  upd_coordinates :: "jsval list option option"
  upd_color :: "string option option"
  upd_lineWidth :: "jsnum option option"
  upd_properties :: "obj option option"

section \<open>The route registry (services/RoutesManager.ts)\<close>

text \<open>The private field \<open>routes\<close> is a \<open>Map<string, Route>\<close>: the entries in insertion
  order. \<open>set\<close> on a present key replaces the value in place, on a new key it appends.\<close>

type_synonym registry = "(string \<times> route) list"

definition map_has :: "registry \<Rightarrow> string \<Rightarrow> bool" where
  "map_has m k = (k \<in> fst ` set m)"

definition map_get :: "registry \<Rightarrow> string \<Rightarrow> route option" where
  "map_get m k = map_of m k"

definition map_set :: "registry \<Rightarrow> string \<Rightarrow> route \<Rightarrow> registry" where
  "map_set m k r = AList.update k r m"

text \<open>\<open>Map.delete\<close>: whether the key was present, and the map without it.\<close>

definition map_delete :: "registry \<Rightarrow> string \<Rightarrow> bool \<times> registry" where
  "map_delete m k = (map_has m k, AList.delete k m)"

text \<open>The body of the loop of \<open>validateRoute\<close>, for one element of the coordinates.\<close>

definition validateCoord :: "jsval \<Rightarrow> error + unit" where
  "validateCoord coord =
     (case as_array coord of
        None \<Rightarrow> Inl (Error ''Each coordinate must be [longitude, latitude]'')
      | Some xs \<Rightarrow>
          if length xs \<noteq> 2 then Inl (Error ''Each coordinate must be [longitude, latitude]'')
          else
            (case (as_number (xs ! 0), as_number (xs ! 1)) of
               (Some lng, Some lat) \<Rightarrow>
                 if js_lt lng (Fin (-180)) \<or> js_lt (Fin 180) lng
                 then Inl (Error ''Longitude must be between -180 and 180'')
                 else if js_lt lat (Fin (-90)) \<or> js_lt (Fin 90) lat
                 then Inl (Error ''Latitude must be between -90 and 90'')
                 else Inr ()
             | _ \<Rightarrow> Inl (Error ''Coordinates must be numbers'')))"

text \<open>The loop \<open>for (const coord of route.coordinates)\<close>: the first failure throws.\<close>

fun validateCoords :: "jsval list \<Rightarrow> error + unit" where
  "validateCoords [] = Inr ()"
| "validateCoords (coord # rest) =
     (case validateCoord coord of Inl e \<Rightarrow> Inl e | Inr u \<Rightarrow> validateCoords rest)"

definition validateRoute :: "route \<Rightarrow> error + unit" where
  "validateRoute r =
     (case route_coordinates r of
        None \<Rightarrow> Inl (Error ''Route must have at least 2 coordinates'')
      | Some cs \<Rightarrow>
          if length cs < 2 then Inl (Error ''Route must have at least 2 coordinates'')
          else validateCoords cs)"

text \<open>The double quote of the two messages that print an id.\<close>

definition dquote :: string where
  "dquote = [CHR 0x22]"

text \<open>The mutating methods return what the call produced (a thrown error or the
  returned value) together with the registry after the call.\<close>

definition addRoute :: "registry \<Rightarrow> route \<Rightarrow> (error + unit) \<times> registry" where
  "addRoute m r =
     (if route_id r = [] then (Inl (Error ''Route must have an id''), m)
      else if map_has m (route_id r)
      then (Inl (Error (''Route with id '' @ dquote @ route_id r @ dquote @ '' already exists'')), m)
      else
        (case validateRoute r of
           Inl e \<Rightarrow> (Inl e, m)
         | Inr u \<Rightarrow> (Inr (), map_set m (route_id r) r)))"

fun addRoutes :: "registry \<Rightarrow> route list \<Rightarrow> (error + unit) \<times> registry" where
  "addRoutes m [] = (Inr (), m)"
| "addRoutes m (r # rs) =
     (case addRoute m r of
        (Inl e, m') \<Rightarrow> (Inl e, m')
      | (Inr u, m') \<Rightarrow> addRoutes m' rs)"

text \<open>The constructor: a registry, unless adding the initial routes throws.\<close>

definition new_RoutesManager :: "route list \<Rightarrow> error + registry" where
  "new_RoutesManager initialRoutes =
     (case addRoutes [] initialRoutes of
        (Inl e, m) \<Rightarrow> Inl e
      | (Inr u, m) \<Rightarrow> Inr m)"

text \<open>The object \<open>{...existingRoute, ...updates, id}\<close>.\<close>

definition or_existing :: "'a option \<Rightarrow> 'a \<Rightarrow> 'a" where
  "or_existing u old = (case u of None \<Rightarrow> old | Some v \<Rightarrow> v)"

definition merge_updates :: "route \<Rightarrow> route_updates \<Rightarrow> string \<Rightarrow> route" where
  "merge_updates existingRoute updates i =
     \<lparr> route_id = i,
       route_name = or_existing (upd_name updates) (route_name existingRoute),
       route_coordinates = or_existing (upd_coordinates updates) (route_coordinates existingRoute),
       route_color = or_existing (upd_color updates) (route_color existingRoute),
       route_lineWidth = or_existing (upd_lineWidth updates) (route_lineWidth existingRoute),
       route_properties = or_existing (upd_properties updates) (route_properties existingRoute) \<rparr>"

definition updateRoute :: "registry \<Rightarrow> string \<Rightarrow> route_updates \<Rightarrow> (error + unit) \<times> registry" where
  "updateRoute m i updates =
     (case map_get m i of
        None \<Rightarrow> (Inl (Error (''Route with id '' @ dquote @ i @ dquote @ '' not found'')), m)
      | Some existingRoute \<Rightarrow>
          (let updatedRoute = merge_updates existingRoute updates i in
           case validateRoute updatedRoute of
             Inl e \<Rightarrow> (Inl e, m)
           | Inr u \<Rightarrow> (Inr (), map_set m i updatedRoute)))"

definition removeRoute :: "registry \<Rightarrow> string \<Rightarrow> bool \<times> registry" where
  "removeRoute m i = map_delete m i"

fun removeRoutes :: "registry \<Rightarrow> string list \<Rightarrow> registry" where
  "removeRoutes m [] = m"
| "removeRoutes m (i # ids) = removeRoutes (snd (map_delete m i)) ids"

definition clearAll :: "registry \<Rightarrow> registry" where
  "clearAll m = []"

definition getRoute :: "registry \<Rightarrow> string \<Rightarrow> route option" where
  "getRoute m i = map_get m i"

definition getAllRoutes :: "registry \<Rightarrow> route list" where
  "getAllRoutes m = map snd m"

definition hasRoute :: "registry \<Rightarrow> string \<Rightarrow> bool" where
  "hasRoute m i = map_has m i"

section \<open>GeoJSON\<close>

text \<open>A geometry, a feature and a feature collection. The members \<open>type\<close>,
  \<open>coordinates\<close>, \<open>geometry\<close>, \<open>properties\<close> and \<open>features\<close> are fields; every other
  member of the object is kept in the field \<open>\<dots>_other\<close>. The geometry and the
  properties of a feature are an object or \<open>null\<close>, which is \<open>None\<close>.\<close>

record geometry =
  geometry_type :: string
  geometry_coordinates :: jsval
  geometry_other :: obj

record feature =
  feature_type :: string
  feature_geometry :: "geometry option"
  feature_properties :: "obj option"
  feature_other :: obj

record feature_collection =
  collection_type :: string
  collection_features :: "feature list"
  collection_other :: obj

text \<open>\<open>route.color || '#FF0000'\<close> and \<open>route.lineWidth || 4\<close>.\<close>

definition color_or_default :: "string option \<Rightarrow> string" where
  "color_or_default c = (case c of None \<Rightarrow> ''#FF0000'' | Some s \<Rightarrow> if s = [] then ''#FF0000'' else s)"

definition lineWidth_or_default :: "jsnum option \<Rightarrow> jsnum" where
  "lineWidth_or_default w = (case w of None \<Rightarrow> Fin 4 | Some n \<Rightarrow> if num_truthy n then n else Fin 4)"

definition string_value :: "string option \<Rightarrow> jsval" where
  "string_value s = (case s of None \<Rightarrow> JUndefined | Some t \<Rightarrow> JStr t)"

definition array_value :: "jsval list option \<Rightarrow> jsval" where
  "array_value a = (case a of None \<Rightarrow> JUndefined | Some xs \<Rightarrow> JArr xs)"

text \<open>The callback of \<open>map\<close> in \<open>toGeoJSON\<close>: the feature of one route. Spreading
  \<open>undefined\<close> adds nothing.\<close>

definition route_feature :: "route \<Rightarrow> feature" where
  "route_feature r =
     \<lparr> feature_type = ''Feature'',
       feature_geometry =
         Some \<lparr> geometry_type = ''LineString'',
                geometry_coordinates = array_value (route_coordinates r),
                geometry_other = [] \<rparr>,
       feature_properties =
         Some (spread
           [(''id'', JStr (route_id r)),
            (''name'', string_value (route_name r)),
            (''color'', JStr (color_or_default (route_color r))),
            (''lineWidth'', JNum (lineWidth_or_default (route_lineWidth r)))]
           (case route_properties r of None \<Rightarrow> [] | Some ps \<Rightarrow> ps)),
       feature_other = [] \<rparr>"

definition toGeoJSON :: "registry \<Rightarrow> feature_collection" where
  "toGeoJSON m =
     \<lparr> collection_type = ''FeatureCollection'',
       collection_features = map route_feature (getAllRoutes m),
       collection_other = [] \<rparr>"

section \<open>Reprojection (utils/geoTransform.ts)\<close>

text \<open>The call \<open>proj4('EPSG:3347', 'EPSG:4326', [x, y])\<close> of the projection library,
  which is not part of the repository: it returns a pair of numbers or throws.\<close>

type_synonym projection = "jsnum \<Rightarrow> jsnum \<Rightarrow> error + jsnum \<times> jsnum"

text \<open>The element \<open>i\<close> of an array and the character \<open>i\<close> of a string, \<open>undefined\<close>
  out of range.\<close>

definition elem :: "jsval list \<Rightarrow> nat \<Rightarrow> jsval" where
  "elem xs i = (if i < length xs then xs ! i else JUndefined)"

definition char_at :: "string \<Rightarrow> nat \<Rightarrow> jsval" where
  "char_at s i = (if i < length s then JStr [s ! i] else JUndefined)"

text \<open>The destructuring \<open>const [x, y] = v\<close>: arrays and strings are iterable, the other
  values are not.\<close>

fun destructure2 :: "jsval \<Rightarrow> error + jsval \<times> jsval" where
  "destructure2 (JArr xs) = Inr (elem xs 0, elem xs 1)"
| "destructure2 (JStr s) = Inr (char_at s 0, char_at s 1)"
| "destructure2 v = Inl TypeError"

text \<open>The read \<open>v[0]\<close>.\<close>

fun index0 :: "jsval \<Rightarrow> error + jsval" where
  "index0 JUndefined = Inl TypeError"
| "index0 JNull = Inl TypeError"
| "index0 (JArr xs) = Inr (elem xs 0)"
| "index0 (JStr s) = Inr (char_at s 0)"
| "index0 (JObj ps) = Inr (get_prop ps ''0'')"
| "index0 v = Inr JUndefined"

text \<open>\<open>Array.prototype.map\<close> with a callback that may throw: the first throw ends the
  call. On a value that is not an array the call \<open>v.map(f)\<close> throws a TypeError.\<close>

fun map_throwing :: "('a \<Rightarrow> error + 'b) \<Rightarrow> 'a list \<Rightarrow> error + 'b list" where
  "map_throwing f [] = Inr []"
| "map_throwing f (x # xs) =
     (case f x of
        Inl e \<Rightarrow> Inl e
      | Inr y \<Rightarrow> (case map_throwing f xs of Inl e \<Rightarrow> Inl e | Inr ys \<Rightarrow> Inr (y # ys)))"

definition array_map :: "(jsval \<Rightarrow> error + jsval) \<Rightarrow> jsval \<Rightarrow> error + jsval" where
  "array_map f v =
     (case as_array v of
        None \<Rightarrow> Inl TypeError
      | Some xs \<Rightarrow> (case map_throwing f xs of Inl e \<Rightarrow> Inl e | Inr ys \<Rightarrow> Inr (JArr ys)))"

text \<open>The \<open>catch\<close> block of \<open>transformCoordinates3347To4326\<close> logs and throws the error
  again, so every failure of the \<open>try\<close> block is the failure of the function.\<close>

definition transformCoordinates3347To4326 :: "projection \<Rightarrow> jsval \<Rightarrow> error + jsval" where
  "transformCoordinates3347To4326 proj4 coordinates =
     (case destructure2 coordinates of
        Inl e \<Rightarrow> Inl e
      | Inr (x, y) \<Rightarrow>
          (case (as_number x, as_number y) of
             (Some a, Some b) \<Rightarrow>
               if isNaN a \<or> isNaN b then Inl (InvalidCoordinates x y)
               else
                 (case proj4 a b of
                    Inl e \<Rightarrow> Inl e
                  | Inr (longitude, latitude) \<Rightarrow>
                      if isNaN longitude \<or> isNaN latitude then Inl (TransformationFailed x y)
                      else Inr (JArr [JNum longitude, JNum latitude]))
           | _ \<Rightarrow> Inl (InvalidCoordinates x y)))"

definition transformCoordinateArray :: "projection \<Rightarrow> jsval \<Rightarrow> error + jsval" where
  "transformCoordinateArray proj4 coordinates =
     array_map (transformCoordinates3347To4326 proj4) coordinates"

definition transformPolygonCoordinates :: "projection \<Rightarrow> jsval \<Rightarrow> error + jsval" where
  "transformPolygonCoordinates proj4 coordinates =
     array_map (transformCoordinateArray proj4) coordinates"

text \<open>The \<open>try\<close> block of the callback of \<open>transformGeoJSON3347To4326\<close>. The read
  \<open>feature.geometry.type\<close> throws when the geometry is \<open>null\<close>. The counters and the
  console output are left out; the logged expression reads \<open>coordinates[0][0]\<close> of the
  freshly built array behind a guard and cannot throw.\<close>

definition transform_feature_try :: "projection \<Rightarrow> feature \<Rightarrow> error + feature" where
  "transform_feature_try proj4 f =
     (case feature_geometry f of
        None \<Rightarrow> Inl TypeError
      | Some g \<Rightarrow>
          if geometry_type g = ''Polygon''
          then
            (case transformPolygonCoordinates proj4 (geometry_coordinates g) of
               Inl e \<Rightarrow> Inl e
             | Inr cs \<Rightarrow> Inr (f\<lparr>feature_geometry := Some (g\<lparr>geometry_coordinates := cs\<rparr>)\<rparr>))
          else Inr f)"

text \<open>The callback: the \<open>catch\<close> block returns \<open>null\<close>, here \<open>None\<close>.\<close>

definition transform_feature :: "projection \<Rightarrow> feature \<Rightarrow> feature option" where
  "transform_feature proj4 f =
     (case transform_feature_try proj4 f of Inl e \<Rightarrow> None | Inr f' \<Rightarrow> Some f')"

definition transformGeoJSON3347To4326 :: "projection \<Rightarrow> feature_collection \<Rightarrow> feature_collection" where
  "transformGeoJSON3347To4326 proj4 geoJSON =
     geoJSON\<lparr>collection_features :=
       map the (filter (\<lambda>f. f \<noteq> None) (map (transform_feature proj4) (collection_features geoJSON)))\<rparr>"

section \<open>Fetching\<close>

text \<open>A \<open>Response\<close>: \<open>ok\<close>, \<open>statusText\<close> and what \<open>response.json()\<close> resolves to, cast
  to a feature collection by the callers; \<open>None\<close> when the body is not JSON and the
  promise rejects with a SyntaxError. \<open>fetch\<close> gives a response or rejects.\<close>

record response =
  response_ok :: bool
  response_statusText :: string
  response_json :: "feature_collection option"

type_synonym fetcher = "string \<Rightarrow> error + response"

text \<open>The two debugging blocks of \<open>loadOttawaDABoundaries\<close>: they read the geometry type
  of the first feature and, when it is a Polygon, \<open>coordinates[0][0]\<close>, which throws when
  \<open>coordinates[0]\<close> is \<open>undefined\<close>.\<close>

definition first_coordinate :: "feature_collection \<Rightarrow> error + unit" where
  "first_coordinate geoJSON =
     (case collection_features geoJSON of
        [] \<Rightarrow> Inr ()
      | f # fs \<Rightarrow>
          (case feature_geometry f of
             None \<Rightarrow> Inl TypeError
           | Some g \<Rightarrow>
               if geometry_type g = ''Polygon''
               then
                 (case index0 (geometry_coordinates g) of
                    Inl e \<Rightarrow> Inl e
                  | Inr ring \<Rightarrow> (case index0 ring of Inl e \<Rightarrow> Inl e | Inr firstCoord \<Rightarrow> Inr ()))
               else Inr ()))"

definition loadOttawaDABoundaries :: "fetcher \<Rightarrow> projection \<Rightarrow> error + feature_collection" where
  "loadOttawaDABoundaries fetch proj4 =
     (case fetch ''/ottawa_da_boundaries.geojson'' of
        Inl e \<Rightarrow> Inl e
      | Inr response \<Rightarrow>
          if \<not> response_ok response
          then Inl (Error (''Failed to load DA boundaries: '' @ response_statusText response))
          else
            (case response_json response of
               None \<Rightarrow> Inl SyntaxError
             | Some geoJSON \<Rightarrow>
                 (case first_coordinate geoJSON of
                    Inl e \<Rightarrow> Inl e
                  | Inr u \<Rightarrow>
                      (let transformed = transformGeoJSON3347To4326 proj4 geoJSON in
                       case first_coordinate transformed of
                         Inl e \<Rightarrow> Inl e
                       | Inr u \<Rightarrow> Inr transformed))))"

section \<open>GeoJSON utilities (utils/geoJsonUtils.ts)\<close>

text \<open>The callback of \<open>normalizeGeoJSON\<close>: \<open>feature.properties || {}\<close>, then the two
  defaults where the property is falsy. The result is the feature the callback returns;
  that the assignments also change the properties object of the argument is not
  modelled.\<close>

definition normalize_feature :: "string \<Rightarrow> jsnum \<Rightarrow> feature \<Rightarrow> feature" where
  "normalize_feature defaultColor defaultLineWidth f =
     (let properties = (case feature_properties f of None \<Rightarrow> [] | Some ps \<Rightarrow> ps);
          properties = (if \<not> truthy (get_prop properties ''color'')
                        then set_prop properties ''color'' (JStr defaultColor) else properties);
          properties = (if \<not> truthy (get_prop properties ''lineWidth'')
                        then set_prop properties ''lineWidth'' (JNum defaultLineWidth) else properties)
      in f\<lparr>feature_properties := Some properties\<rparr>)"

text \<open>A parameter with a default value: the default stands in when the argument is
  \<open>undefined\<close>. Both functions declare \<open>defaultColor = '#FF0000'\<close> and
  \<open>defaultLineWidth = 4\<close>.\<close>

definition default_arg :: "'a option \<Rightarrow> 'a \<Rightarrow> 'a" where
  "default_arg a d = (case a of None \<Rightarrow> d | Some v \<Rightarrow> v)"

definition normalizeGeoJSON ::
  "feature_collection \<Rightarrow> string option \<Rightarrow> jsnum option \<Rightarrow> feature_collection" where
  "normalizeGeoJSON geoJSON defaultColor defaultLineWidth =
     \<lparr> collection_type = ''FeatureCollection'',
       collection_features =
         map (normalize_feature (default_arg defaultColor ''#FF0000'')
                (default_arg defaultLineWidth (Fin 4)))
           (collection_features geoJSON),
       collection_other = [] \<rparr>"

definition fetchGeoJSON ::
  "fetcher \<Rightarrow> string \<Rightarrow> string option \<Rightarrow> jsnum option \<Rightarrow> error + feature_collection" where
  "fetchGeoJSON fetch url defaultColor defaultLineWidth =
     (case fetch url of
        Inl e \<Rightarrow> Inl e
      | Inr response \<Rightarrow>
          if \<not> response_ok response
          then Inl (Error (''Failed to fetch GeoJSON: '' @ response_statusText response))
          else
            (case response_json response of
               None \<Rightarrow> Inl SyntaxError
             | Some geoJSON \<Rightarrow>
                 if collection_type geoJSON \<noteq> ''FeatureCollection''
                 then Inl (Error ''Invalid GeoJSON: Expected FeatureCollection'')
                 else Inr (normalizeGeoJSON geoJSON
                        (Some (default_arg defaultColor ''#FF0000''))
                        (Some (default_arg defaultLineWidth (Fin 4))))))"

section \<open>The map component (Map.tsx)\<close>

text \<open>The options passed to \<open>new maplibregl.Map\<close>.\<close>

record 'c map_options =
  option_container :: 'c
  option_style :: string
  option_center :: "real \<times> real"
  option_zoom :: real

definition DEFAULT_CENTER :: "real \<times> real" where
  "DEFAULT_CENTER = (-75.6972, 45.4215)"

definition DEFAULT_ZOOM :: real where
  "DEFAULT_ZOOM = 11"

definition defaultStyle :: string where
  "defaultStyle = ''https://tiles.openfreemap.org/styles/bright''"

text \<open>The operator \<open>a ?? b\<close> on a value that is a string or \<open>undefined\<close>.\<close>

definition nullish_or :: "'a option \<Rightarrow> 'a \<Rightarrow> 'a" where
  "nullish_or a b = (case a of None \<Rightarrow> b | Some v \<Rightarrow> v)"

text \<open>The effect of the component that constructs the map. \<open>mapExists\<close> is
  \<open>mapRef.current\<close> being set, \<open>container\<close> is \<open>containerRef.current\<close>, and \<open>styleUrl\<close>
  is \<open>import.meta.env.VITE_MAP_STYLE_URL\<close>. The result is \<open>None\<close> when the effect returns
  at once, else the options of the constructed map. \<open>Map_warns\<close> is whether the effect
  logs the warning that the variable is not set.\<close>

definition Map_warns :: "string option \<Rightarrow> bool" where
  "Map_warns styleUrl = (styleUrl = None \<or> styleUrl = Some [])"

definition Map_create :: "bool \<Rightarrow> 'c option \<Rightarrow> string option \<Rightarrow> 'c map_options option" where
  "Map_create mapExists container styleUrl =
     (case container of
        None \<Rightarrow> None
      | Some c \<Rightarrow>
          if mapExists then None
          else Some \<lparr> option_container = c,
                      option_style = nullish_or styleUrl defaultStyle,
                      option_center = DEFAULT_CENTER,
                      option_zoom = DEFAULT_ZOOM \<rparr>)"

section \<open>Specification predicates\<close>

text \<open>A number in the closed interval from \<open>lo\<close> to \<open>hi\<close>; NaN and the infinities
  are in no interval.\<close>

definition in_range :: "real \<Rightarrow> real \<Rightarrow> jsnum \<Rightarrow> bool" where
  "in_range lo hi n = (case n of Fin x \<Rightarrow> lo \<le> x \<and> x \<le> hi | _ \<Rightarrow> False)"

text \<open>What the two comparisons of \<open>validateRoute\<close> let through.\<close>

definition accepted_number :: "real \<Rightarrow> real \<Rightarrow> jsnum \<Rightarrow> bool" where
  "accepted_number lo hi n = (\<not> js_lt n (Fin lo) \<and> \<not> js_lt (Fin hi) n)"

text \<open>Coordinate validity in the words of the specification: at least two points, each
  a pair of numbers, the longitude in [-180, 180] and the latitude in [-90, 90].\<close>

definition spec_valid_point :: "jsval \<Rightarrow> bool" where
  "spec_valid_point c =
     (case as_array c of
        None \<Rightarrow> False
      | Some xs \<Rightarrow>
          length xs = 2 \<and>
          (case (as_number (xs ! 0), as_number (xs ! 1)) of
             (Some lng, Some lat) \<Rightarrow> in_range (-180) 180 lng \<and> in_range (-90) 90 lat
           | _ \<Rightarrow> False))"

definition spec_valid_coordinates :: "route \<Rightarrow> bool" where
  "spec_valid_coordinates r =
     (case route_coordinates r of
        None \<Rightarrow> False
      | Some cs \<Rightarrow> 2 \<le> length cs \<and> list_all spec_valid_point cs)"

text \<open>A point with NaN among its elements.\<close>

definition has_NaN :: "jsval \<Rightarrow> bool" where
  "has_NaN c = (case as_array c of None \<Rightarrow> False | Some xs \<Rightarrow> JNum NaN \<in> set xs)"

text \<open>The invariant of the registry: the keys are distinct, and every route is stored
  under its own id and passes \<open>validateRoute\<close>.\<close>

definition registry_inv :: "registry \<Rightarrow> bool" where
  "registry_inv m =
     (distinct (map fst m) \<and> list_all (\<lambda>(k, r). route_id r = k \<and> validateRoute r = Inr ()) m)"

text \<open>The entries of \<open>route.properties\<close>, none when it is \<open>undefined\<close>, and the
  property \<open>k\<close> of the properties of a feature.\<close>

definition route_extra :: "route \<Rightarrow> obj" where
  "route_extra r = (case route_properties r of None \<Rightarrow> [] | Some ps \<Rightarrow> ps)"

definition feature_prop :: "feature \<Rightarrow> string \<Rightarrow> jsval" where
  "feature_prop f k = (case feature_properties f of None \<Rightarrow> JUndefined | Some ps \<Rightarrow> get_prop ps k)"

section \<open>Example data\<close>

text \<open>Example routes; \<open>example_route\<close> is the first route of the usage examples.\<close>

definition short_route :: route where
  "short_route =
     \<lparr> route_id = ''route-1'', route_name = Some ''Route 1'', route_coordinates = Some [],
       route_color = None, route_lineWidth = None, route_properties = None \<rparr>"

definition example_route :: route where
  "example_route =
     \<lparr> route_id = ''route-1'', route_name = Some ''Route 1'',
       route_coordinates =
         Some [JArr [JNum (Fin (-75.6972)), JNum (Fin 45.4215)],
               JArr [JNum (Fin (-75.69)), JNum (Fin 45.427)]],
       route_color = Some ''#FF0000'', route_lineWidth = None, route_properties = None \<rparr>"

definition nan_route :: route where
  "nan_route =
     \<lparr> route_id = ''route-1'', route_name = Some ''Route 1'',
       route_coordinates =
         Some [JArr [JNum NaN, JNum (Fin 45.4215)],
               JArr [JNum (Fin (-75.69)), JNum (Fin 45.427)]],
       route_color = None, route_lineWidth = None, route_properties = None \<rparr>"

definition tagged_route :: route where
  "tagged_route = example_route\<lparr>route_properties := Some [(''id'', JStr ''route-2'')]\<rparr>"

definition hairline_route :: route where
  "hairline_route = example_route\<lparr>route_lineWidth := Some (Fin 0)\<rparr>"

definition no_updates :: route_updates where
  "no_updates = \<lparr> upd_name = None, upd_coordinates = None, upd_color = None,
      upd_lineWidth = None, upd_properties = None \<rparr>"

definition recolour :: route_updates where
  "recolour = no_updates\<lparr>upd_color := Some (Some ''#FFA500''), upd_lineWidth := Some (Some (Fin 6))\<rparr>"

text \<open>Two responses with the fetchers that give them, a projection that scales finite
  coordinates and throws on the others, and a collection of a good Polygon, a Polygon
  with a NaN coordinate, a Point and a feature whose geometry is \<open>null\<close>.\<close>

definition ok_response :: response where
  "ok_response = \<lparr> response_ok = True, response_statusText = ''OK'',
      response_json = Some \<lparr> collection_type = ''FeatureCollection'', collection_features = [],
        collection_other = [] \<rparr> \<rparr>"

definition not_found_response :: response where
  "not_found_response = \<lparr> response_ok = False, response_statusText = ''Not Found'',
      response_json = None \<rparr>"

definition failing_fetch :: fetcher where
  "failing_fetch url = Inr not_found_response"

definition working_fetch :: fetcher where
  "working_fetch url = Inr ok_response"

definition identity_projection :: projection where
  "identity_projection x y = Inr (x, y)"

definition scaling_projection :: projection where
  "scaling_projection x y =
     (case (x, y) of
        (Fin a, Fin b) \<Rightarrow> Inr (Fin (a / 1000), Fin (b / 1000))
      | _ \<Rightarrow> Inl (Error ''coordinates must be finite numbers''))"

definition polygon_feature :: "jsval \<Rightarrow> feature" where
  "polygon_feature cs =
     \<lparr> feature_type = ''Feature'',
       feature_geometry =
         Some \<lparr> geometry_type = ''Polygon'', geometry_coordinates = cs, geometry_other = [] \<rparr>,
       feature_properties = Some [(''DAUID'', JStr ''35060001'')],
       feature_other = [] \<rparr>"

definition point_feature :: feature where
  "point_feature =
     \<lparr> feature_type = ''Feature'',
       feature_geometry =
         Some \<lparr> geometry_type = ''Point'',
                geometry_coordinates = JArr [JNum (Fin 1000), JNum (Fin 2000)],
                geometry_other = [] \<rparr>,
       feature_properties = None,
       feature_other = [] \<rparr>"

definition unlocated_feature :: feature where
  "unlocated_feature =
     \<lparr> feature_type = ''Feature'', feature_geometry = None,
       feature_properties = Some [(''DAUID'', JStr ''35060002'')], feature_other = [] \<rparr>"

definition triangle :: jsval where
  "triangle = JArr [JArr [JArr [JNum (Fin 1000), JNum (Fin 2000)],
                          JArr [JNum (Fin 3000), JNum (Fin 2000)],
                          JArr [JNum (Fin 1000), JNum (Fin 2000)]]]"

definition broken_ring :: jsval where
  "broken_ring = JArr [JArr [JArr [JNum (Fin 1000), JNum (Fin 2000)],
                             JArr [JNum NaN, JNum (Fin 2000)]]]"

definition unlocated_collection :: feature_collection where
  "unlocated_collection =
     \<lparr> collection_type = ''FeatureCollection'', collection_features = [unlocated_feature],
       collection_other = [] \<rparr>"

definition example_collection :: feature_collection where
  "example_collection =
     \<lparr> collection_type = ''FeatureCollection'',
       collection_features =
         [polygon_feature triangle, polygon_feature broken_ring, point_feature, unlocated_feature],
       collection_other = [(''name'', JStr ''ottawa_da_boundaries'')] \<rparr>"

section \<open>Validation\<close>

lemma accepted_number_iff: "accepted_number lo hi n \<longleftrightarrow> n = NaN \<or> in_range lo hi n"
  by (cases n) (auto simp: accepted_number_def in_range_def)

lemma as_array_Some: "as_array v = Some xs \<longleftrightarrow> v = JArr xs"
  by (cases v) auto

lemma as_number_Some: "as_number v = Some n \<longleftrightarrow> v = JNum n"
  by (cases v) auto

lemma length_two: "length xs = 2 \<longleftrightarrow> (\<exists>a b. xs = [a, b])"
  by (cases xs; cases "tl xs") auto

text \<open>When the loop body, the loop and \<open>validateRoute\<close> return.\<close>

lemma validateCoord_ok_iff:
  "validateCoord c = Inr () \<longleftrightarrow>
     (\<exists>lng lat. c = JArr [JNum lng, JNum lat] \<and>
        accepted_number (-180) 180 lng \<and> accepted_number (-90) 90 lat)"
  unfolding validateCoord_def accepted_number_def
  by (auto simp: as_array_Some as_number_Some length_two split: option.splits if_splits)

lemma validateCoords_ok_iff:
  "validateCoords cs = Inr () \<longleftrightarrow> (\<forall>c \<in> set cs. validateCoord c = Inr ())"
  by (induction cs) (auto split: sum.splits)

lemma validateRoute_ok_iff:
  "validateRoute r = Inr () \<longleftrightarrow>
     (\<exists>cs. route_coordinates r = Some cs \<and> 2 \<le> length cs \<and>
        (\<forall>c \<in> set cs. validateCoord c = Inr ()))"
  unfolding validateRoute_def
  by (auto simp: validateCoords_ok_iff split: option.splits)

lemma validateRoute_example: "validateRoute example_route = Inr ()"
  by (simp add: validateRoute_def example_route_def validateCoord_def)

section \<open>The map of the registry\<close>

lemma map_has_get: "map_has m k \<longleftrightarrow> map_get m k \<noteq> None"
  by (simp add: map_has_def map_get_def map_of_eq_None_iff)

lemma map_get_set: "map_get (map_set m k r) k' = (if k' = k then Some r else map_get m k')"
  by (simp add: map_get_def map_set_def update_conv')

lemma map_has_set: "map_has (map_set m k r) k' \<longleftrightarrow> k' = k \<or> map_has m k'"
  by (auto simp: map_has_get map_get_set)

lemma map_set_fresh: "\<not> map_has m k \<Longrightarrow> map_set m k r = m @ [(k, r)]"
  unfolding map_has_def map_set_def by (induction m) auto

lemma distinct_map_set: "distinct (map fst m) \<Longrightarrow> distinct (map fst (map_set m k r))"
  by (simp add: map_set_def distinct_update)

lemma set_map_set: "set (map_set m k r) \<subseteq> insert (k, r) (set m)"
  unfolding map_set_def by (induction m) auto

lemma map_get_in_set: "map_get m k = Some r \<Longrightarrow> (k, r) \<in> set m"
  by (simp add: map_get_def map_of_SomeD)

lemma set_delete_subset: "set (AList.delete k m) \<subseteq> set m"
  by (auto simp: AList.delete_eq)

section \<open>Adding, updating and removing routes\<close>

lemma addRoute_cases:
  "addRoute m r = (Inr (), m') \<longleftrightarrow>
     route_id r \<noteq> [] \<and> \<not> map_has m (route_id r) \<and> validateRoute r = Inr () \<and>
     m' = map_set m (route_id r) r"
  by (auto simp: addRoute_def split: sum.splits)

lemma addRoute_error_state: "fst (addRoute m r) = Inl e \<Longrightarrow> snd (addRoute m r) = m"
  by (auto simp: addRoute_def split: sum.splits if_splits)

lemma updateRoute_error_state: "fst (updateRoute m i u) = Inl e \<Longrightarrow> snd (updateRoute m i u) = m"
  by (auto simp: updateRoute_def Let_def split: sum.splits option.splits)

lemma addRoute_example: "addRoute [] example_route = (Inr (), [(''route-1'', example_route)])"
  by (simp add: addRoute_cases validateRoute_example map_has_def map_set_def) (simp add: example_route_def)

lemma merge_updates_id: "route_id (merge_updates old u i) = i"
  by (simp add: merge_updates_def)

text \<open>
  Claim C2, as amended. \<open>addRoute\<close> throws and leaves the registry as it was when the id
  of the route is empty and when a route with the same id is already present. Otherwise,
  when \<open>validateRoute\<close> throws, \<open>addRoute\<close> throws that error and leaves the registry as
  it was, so the route is not inserted; and when the route passes \<open>validateRoute\<close>, the
  call returns, the route is appended under its id and every other key keeps its route.
  Keys that were distinct stay distinct.
\<close>

theorem addRoute_unique_insert:
  "(route_id r = [] \<longrightarrow> addRoute m r = (Inl (Error ''Route must have an id''), m)) \<and>
   (route_id r \<noteq> [] \<and> map_has m (route_id r) \<longrightarrow>
      addRoute m r =
        (Inl (Error (''Route with id '' @ dquote @ route_id r @ dquote @ '' already exists'')), m)) \<and>
   (route_id r \<noteq> [] \<and> \<not> map_has m (route_id r) \<and> validateRoute r = Inl e \<longrightarrow>
      addRoute m r = (Inl e, m) \<and> \<not> map_has (snd (addRoute m r)) (route_id r)) \<and>
   (route_id r \<noteq> [] \<and> \<not> map_has m (route_id r) \<and> validateRoute r = Inr () \<longrightarrow>
      fst (addRoute m r) = Inr () \<and>
      snd (addRoute m r) = m @ [(route_id r, r)] \<and>
      map_get (snd (addRoute m r)) (route_id r) = Some r \<and>
      (\<forall>k. k \<noteq> route_id r \<longrightarrow> map_get (snd (addRoute m r)) k = map_get m k)) \<and>
   (distinct (map fst m) \<longrightarrow> distinct (map fst (snd (addRoute m r))))"
proof (intro conjI impI)
  assume "route_id r = []"
  then show "addRoute m r = (Inl (Error ''Route must have an id''), m)"
    by (simp add: addRoute_def)
next
  assume "route_id r \<noteq> [] \<and> map_has m (route_id r)"
  then show "addRoute m r =
        (Inl (Error (''Route with id '' @ dquote @ route_id r @ dquote @ '' already exists'')), m)"
    by (simp add: addRoute_def)
next
  assume f: "route_id r \<noteq> [] \<and> \<not> map_has m (route_id r) \<and> validateRoute r = Inl e"
  then show "addRoute m r = (Inl e, m)"
    by (simp add: addRoute_def)
  with f show "\<not> map_has (snd (addRoute m r)) (route_id r)"
    by simp
next
  assume a: "route_id r \<noteq> [] \<and> \<not> map_has m (route_id r) \<and> validateRoute r = Inr ()"
  then have eq: "addRoute m r = (Inr (), map_set m (route_id r) r)"
    by (simp add: addRoute_cases)
  show "fst (addRoute m r) = Inr ()" by (simp add: eq)
  show "snd (addRoute m r) = m @ [(route_id r, r)]"
    using a by (simp add: eq map_set_fresh)
  show "map_get (snd (addRoute m r)) (route_id r) = Some r"
    by (simp add: eq map_get_set)
  show "\<forall>k. k \<noteq> route_id r \<longrightarrow> map_get (snd (addRoute m r)) k = map_get m k"
    by (simp add: eq map_get_set)
next
  assume d: "distinct (map fst m)"
  show "distinct (map fst (snd (addRoute m r)))"
  proof (cases "fst (addRoute m r)")
    case (Inl e)
    then show ?thesis using d by (simp add: addRoute_error_state)
  next
    case (Inr u)
    then have "addRoute m r = (Inr (), snd (addRoute m r))"
      by (cases "addRoute m r") simp
    then have "snd (addRoute m r) = map_set m (route_id r) r"
      by (simp add: addRoute_cases)
    then show ?thesis using d by (simp add: distinct_map_set)
  qed
qed

text \<open>
  Claim C2 as stated fails: a route with a fresh, non-empty id and an empty coordinate
  list is not inserted; \<open>validateRoute\<close> throws.
\<close>

theorem addRoute_insert_counterexample:
  "route_id short_route \<noteq> [] \<and> \<not> map_has [] (route_id short_route) \<and>
   fst (addRoute [] short_route) = Inl (Error ''Route must have at least 2 coordinates'') \<and>
   map_get (snd (addRoute [] short_route)) (route_id short_route) = None"
  by (simp add: short_route_def addRoute_def map_has_def map_get_def validateRoute_def)

text \<open>Claim C2, the amended theorem at the four cases of a concrete registry: an empty
  id, a duplicate id, a fresh id with too few coordinates, and a valid route.\<close>

theorem addRoute_unique_insert_witness:
  "addRoute [] (example_route\<lparr>route_id := []\<rparr>) = (Inl (Error ''Route must have an id''), []) \<and>
   addRoute [(''route-1'', example_route)] example_route =
     (Inl (Error (''Route with id '' @ dquote @ ''route-1'' @ dquote @ '' already exists'')),
      [(''route-1'', example_route)]) \<and>
   addRoute [(''route-1'', example_route)] (short_route\<lparr>route_id := ''route-2''\<rparr>) =
     (Inl (Error ''Route must have at least 2 coordinates''), [(''route-1'', example_route)]) \<and>
   \<not> map_has (snd (addRoute [(''route-1'', example_route)] (short_route\<lparr>route_id := ''route-2''\<rparr>)))
       ''route-2'' \<and>
   snd (addRoute [] example_route) = [(''route-1'', example_route)] \<and>
   distinct (map fst (snd (addRoute [] example_route)))"
proof -
  have a: "route_id (example_route\<lparr>route_id := []\<rparr>) = []" by simp
  have f: "route_id (short_route\<lparr>route_id := ''route-2''\<rparr>) \<noteq> [] \<and>
      \<not> map_has [(''route-1'', example_route)] (route_id (short_route\<lparr>route_id := ''route-2''\<rparr>)) \<and>
      validateRoute (short_route\<lparr>route_id := ''route-2''\<rparr>) =
        Inl (Error ''Route must have at least 2 coordinates'')"
    by (simp add: map_has_def validateRoute_def short_route_def)
  from f addRoute_unique_insert [of "short_route\<lparr>route_id := ''route-2''\<rparr>"
      "[(''route-1'', example_route)]" "Error ''Route must have at least 2 coordinates''"]
  have 5: "addRoute [(''route-1'', example_route)] (short_route\<lparr>route_id := ''route-2''\<rparr>) =
       (Inl (Error ''Route must have at least 2 coordinates''), [(''route-1'', example_route)]) \<and>
     \<not> map_has (snd (addRoute [(''route-1'', example_route)] (short_route\<lparr>route_id := ''route-2''\<rparr>)))
       (route_id (short_route\<lparr>route_id := ''route-2''\<rparr>))"
    by blast
  have b: "route_id example_route \<noteq> [] \<and> map_has [(''route-1'', example_route)] (route_id example_route)"
    by (simp add: example_route_def map_has_def)
  have c: "route_id example_route \<noteq> [] \<and> \<not> map_has [] (route_id example_route) \<and>
      validateRoute example_route = Inr ()"
    by (simp add: validateRoute_example map_has_def) (simp add: example_route_def)
  have d: "distinct (map fst ([] :: registry))" by simp
  have i: "route_id example_route = ''route-1''" by (simp add: example_route_def)
  from a addRoute_unique_insert [of "example_route\<lparr>route_id := []\<rparr>" "[]"]
  have 1: "addRoute [] (example_route\<lparr>route_id := []\<rparr>) = (Inl (Error ''Route must have an id''), [])"
    by blast
  from b addRoute_unique_insert [of example_route "[(''route-1'', example_route)]"]
  have 2: "addRoute [(''route-1'', example_route)] example_route =
     (Inl (Error (''Route with id '' @ dquote @ route_id example_route @ dquote @ '' already exists'')),
      [(''route-1'', example_route)])"
    by blast
  from c addRoute_unique_insert [of example_route "[]"]
  have 3: "snd (addRoute [] example_route) = [] @ [(route_id example_route, example_route)]"
    by blast
  from d addRoute_unique_insert [of example_route "[]"]
  have 4: "distinct (map fst (snd (addRoute [] example_route)))"
    by blast
  from 5 have "\<not> map_has (snd (addRoute [(''route-1'', example_route)]
      (short_route\<lparr>route_id := ''route-2''\<rparr>))) (route_id (short_route\<lparr>route_id := ''route-2''\<rparr>))"
    by blast
  then have 6: "\<not> map_has (snd (addRoute [(''route-1'', example_route)]
      (short_route\<lparr>route_id := ''route-2''\<rparr>))) ''route-2''"
    by simp
  from 5 have 7: "addRoute [(''route-1'', example_route)] (short_route\<lparr>route_id := ''route-2''\<rparr>) =
       (Inl (Error ''Route must have at least 2 coordinates''), [(''route-1'', example_route)])"
    by blast
  show ?thesis
    apply (intro conjI)
    using 1 apply simp
    using 2 apply (simp add: i)
    using 7 apply simp
    using 6 apply blast
    using 3 apply (simp add: i)
    using 4 apply simp
    done
qed

text \<open>
  Claim C5. When \<open>addRoute\<close> or \<open>updateRoute\<close> throws, the registry after the call is
  the registry before it. Each failure is returned to the caller as the thrown error: an
  empty or duplicate id or a failed validation on add (the error of \<open>validateRoute\<close>
  unchanged), a missing id on update, and a failed validation of the merged route on
  update.
\<close>

theorem mutation_error_atomic:
  "(\<forall>e. fst (addRoute m r) = Inl e \<longrightarrow> snd (addRoute m r) = m) \<and>
   (\<forall>e. fst (updateRoute m i u) = Inl e \<longrightarrow> snd (updateRoute m i u) = m) \<and>
   (route_id r = [] \<or> map_has m (route_id r) \<or> validateRoute r \<noteq> Inr ()
      \<longrightarrow> (\<exists>e. fst (addRoute m r) = Inl e)) \<and>
   (\<forall>e. route_id r \<noteq> [] \<and> \<not> map_has m (route_id r) \<and> validateRoute r = Inl e
      \<longrightarrow> fst (addRoute m r) = Inl e) \<and>
   (map_get m i = None \<longrightarrow>
      fst (updateRoute m i u) =
        Inl (Error (''Route with id '' @ dquote @ i @ dquote @ '' not found''))) \<and>
   (\<forall>old e. map_get m i = Some old \<and> validateRoute (merge_updates old u i) = Inl e
      \<longrightarrow> fst (updateRoute m i u) = Inl e)"
proof (intro conjI allI impI)
  fix e assume "fst (addRoute m r) = Inl e"
  then show "snd (addRoute m r) = m" by (rule addRoute_error_state)
next
  fix e assume "fst (updateRoute m i u) = Inl e"
  then show "snd (updateRoute m i u) = m" by (rule updateRoute_error_state)
next
  assume "route_id r = [] \<or> map_has m (route_id r) \<or> validateRoute r \<noteq> Inr ()"
  then show "\<exists>e. fst (addRoute m r) = Inl e"
    by (cases "validateRoute r") (auto simp: addRoute_def)
next
  fix e assume "route_id r \<noteq> [] \<and> \<not> map_has m (route_id r) \<and> validateRoute r = Inl e"
  then show "fst (addRoute m r) = Inl e" by (simp add: addRoute_def)
next
  assume "map_get m i = None"
  then show "fst (updateRoute m i u) =
        Inl (Error (''Route with id '' @ dquote @ i @ dquote @ '' not found''))"
    by (simp add: updateRoute_def)
next
  fix old e assume "map_get m i = Some old \<and> validateRoute (merge_updates old u i) = Inl e"
  then show "fst (updateRoute m i u) = Inl e" by (simp add: updateRoute_def)
qed

text \<open>Claim C5 at a duplicate add, an invalid add, a missing update and an invalid update.\<close>

theorem mutation_error_atomic_witness:
  "fst (addRoute [(''route-1'', example_route)] example_route) =
     Inl (Error (''Route with id '' @ dquote @ ''route-1'' @ dquote @ '' already exists'')) \<and>
   snd (addRoute [(''route-1'', example_route)] example_route) = [(''route-1'', example_route)] \<and>
   fst (addRoute [(''route-1'', example_route)] (short_route\<lparr>route_id := ''route-2''\<rparr>)) =
     Inl (Error ''Route must have at least 2 coordinates'') \<and>
   snd (addRoute [(''route-1'', example_route)] (short_route\<lparr>route_id := ''route-2''\<rparr>)) =
     [(''route-1'', example_route)] \<and>
   fst (updateRoute [(''route-1'', example_route)] ''route-2'' recolour) =
     Inl (Error (''Route with id '' @ dquote @ ''route-2'' @ dquote @ '' not found'')) \<and>
   snd (updateRoute [(''route-1'', example_route)] ''route-2'' recolour) = [(''route-1'', example_route)] \<and>
   fst (updateRoute [(''route-1'', example_route)] ''route-1''
          (no_updates\<lparr>upd_coordinates := Some None\<rparr>)) =
     Inl (Error ''Route must have at least 2 coordinates'') \<and>
   snd (updateRoute [(''route-1'', example_route)] ''route-1''
          (no_updates\<lparr>upd_coordinates := Some None\<rparr>)) = [(''route-1'', example_route)]"
proof -
  let ?m = "[(''route-1'', example_route)]"
  let ?r = "short_route\<lparr>route_id := ''route-2''\<rparr>"
  let ?u = "no_updates\<lparr>upd_coordinates := Some None\<rparr>"
  have i: "route_id example_route = ''route-1''" by (simp add: example_route_def)
  have 1: "fst (addRoute ?m example_route) =
     Inl (Error (''Route with id '' @ dquote @ ''route-1'' @ dquote @ '' already exists''))"
    by (simp add: addRoute_def i map_has_def)
  have v: "validateRoute ?r = Inl (Error ''Route must have at least 2 coordinates'')"
    by (simp add: validateRoute_def short_route_def)
  have f: "route_id ?r \<noteq> [] \<and> \<not> map_has ?m (route_id ?r) \<and>
      validateRoute ?r = Inl (Error ''Route must have at least 2 coordinates'')"
    by (simp add: v map_has_def)
  have g: "map_get ?m ''route-2'' = None" by (simp add: map_get_def)
  have h: "map_get ?m ''route-1'' = Some example_route \<and>
      validateRoute (merge_updates example_route ?u ''route-1'') =
        Inl (Error ''Route must have at least 2 coordinates'')"
    by (simp add: map_get_def validateRoute_def merge_updates_def no_updates_def or_existing_def)
  note t1 = mutation_error_atomic [of ?m example_route "''route-2''" recolour]
  note t2 = mutation_error_atomic [of ?m ?r "''route-1''" ?u]
  from t1 1 have 2: "snd (addRoute ?m example_route) = ?m" by blast
  from t2 f have 3: "fst (addRoute ?m ?r) = Inl (Error ''Route must have at least 2 coordinates'')"
    by blast
  with t2 have 4: "snd (addRoute ?m ?r) = ?m" by blast
  from t1 g have 5: "fst (updateRoute ?m ''route-2'' recolour) =
     Inl (Error (''Route with id '' @ dquote @ ''route-2'' @ dquote @ '' not found''))"
    by blast
  with t1 have 6: "snd (updateRoute ?m ''route-2'' recolour) = ?m" by blast
  from t2 h have 7: "fst (updateRoute ?m ''route-1'' ?u) =
     Inl (Error ''Route must have at least 2 coordinates'')"
    by blast
  with t2 have 8: "snd (updateRoute ?m ''route-1'' ?u) = ?m" by blast
  from 1 2 3 4 5 6 7 8 show ?thesis by simp
qed

text \<open>
  Claim C4. After a successful \<open>updateRoute m i u\<close> the route stored under \<open>i\<close> has id
  \<open>i\<close>; each field named in the updates has the value given there and each field not
  named has the value of the existing route. The routes under other ids and the order of
  the keys are unchanged.
\<close>

theorem updateRoute_frame:
  "fst (updateRoute m i u) = Inr () \<Longrightarrow>
   \<exists>old new. map_get m i = Some old \<and> map_get (snd (updateRoute m i u)) i = Some new \<and>
     route_id new = i \<and>
     route_name new = (case upd_name u of None \<Rightarrow> route_name old | Some v \<Rightarrow> v) \<and>
     route_coordinates new =
       (case upd_coordinates u of None \<Rightarrow> route_coordinates old | Some v \<Rightarrow> v) \<and>
     route_color new = (case upd_color u of None \<Rightarrow> route_color old | Some v \<Rightarrow> v) \<and>
     route_lineWidth new = (case upd_lineWidth u of None \<Rightarrow> route_lineWidth old | Some v \<Rightarrow> v) \<and>
     route_properties new =
       (case upd_properties u of None \<Rightarrow> route_properties old | Some v \<Rightarrow> v) \<and>
     (\<forall>k. k \<noteq> i \<longrightarrow> map_get (snd (updateRoute m i u)) k = map_get m k) \<and>
     map fst (snd (updateRoute m i u)) = map fst m"
proof -
  assume ok: "fst (updateRoute m i u) = Inr ()"
  then obtain old where old: "map_get m i = Some old"
    by (cases "map_get m i") (auto simp: updateRoute_def)
  with ok have v: "validateRoute (merge_updates old u i) = Inr ()"
    by (cases "validateRoute (merge_updates old u i)") (auto simp: updateRoute_def)
  with old have eq: "snd (updateRoute m i u) = map_set m i (merge_updates old u i)"
    by (simp add: updateRoute_def)
  have keys: "map fst (map_set m i (merge_updates old u i)) = map fst m"
    using old [THEN map_get_in_set] unfolding map_set_def
    by (force simp: update_keys)
  show ?thesis
    apply (rule exI [of _ old], rule exI [of _ "merge_updates old u i"])
    using old keys by (simp add: eq map_get_set merge_updates_def or_existing_def)
qed

text \<open>Claim C4 at the update of color and lineWidth of a stored route.\<close>

theorem updateRoute_frame_witness:
  "fst (updateRoute [(''route-1'', example_route)] ''route-1'' recolour) = Inr () \<and>
   (\<exists>new. map_get (snd (updateRoute [(''route-1'', example_route)] ''route-1'' recolour)) ''route-1''
        = Some new \<and>
      route_id new = ''route-1'' \<and> route_name new = Some ''Route 1'' \<and>
      route_color new = Some ''#FFA500'' \<and> route_lineWidth new = Some (Fin 6) \<and>
      route_coordinates new = route_coordinates example_route)"
proof -
  let ?m = "[(''route-1'', example_route)]"
  have m: "merge_updates example_route recolour ''route-1'' =
      example_route\<lparr>route_color := Some ''#FFA500'', route_lineWidth := Some (Fin 6)\<rparr>"
    by (simp add: merge_updates_def recolour_def no_updates_def or_existing_def example_route_def)
  have v: "validateRoute (example_route\<lparr>route_color := Some ''#FFA500'', route_lineWidth := Some (Fin 6)\<rparr>)
      = Inr ()"
    by (simp add: validateRoute_def example_route_def validateCoord_def)
  have ok: "fst (updateRoute ?m ''route-1'' recolour) = Inr ()"
    by (simp add: updateRoute_def map_get_def m v)
  have g: "map_get ?m ''route-1'' = Some example_route" by (simp add: map_get_def)
  have u: "upd_name recolour = None \<and> upd_coordinates recolour = None \<and>
      upd_color recolour = Some (Some ''#FFA500'') \<and> upd_lineWidth recolour = Some (Some (Fin 6))"
    by (simp add: recolour_def no_updates_def)
  have n: "route_name example_route = Some ''Route 1''" by (simp add: example_route_def)
  from updateRoute_frame [OF ok] show ?thesis
    using ok by (auto simp: g u n)
qed

text \<open>
  Claim C9. \<open>removeRoute\<close> has no error result. On a present id it returns true and the
  registry without that entry; on an absent id it returns false and the registry as it
  was. The routes under other ids are untouched. \<open>updateRoute\<close> on an absent id throws.
\<close>

theorem removeRoute_total:
  "(map_has m i \<longrightarrow>
      fst (removeRoute m i) = True \<and> \<not> map_has (snd (removeRoute m i)) i \<and>
      snd (removeRoute m i) = filter (\<lambda>p. fst p \<noteq> i) m) \<and>
   (\<not> map_has m i \<longrightarrow> fst (removeRoute m i) = False \<and> snd (removeRoute m i) = m) \<and>
   (\<forall>k. k \<noteq> i \<longrightarrow> map_get (snd (removeRoute m i)) k = map_get m k) \<and>
   (\<not> map_has m i \<longrightarrow> (\<exists>e. fst (updateRoute m i u) = Inl e))"
proof (intro conjI impI allI)
  assume "map_has m i"
  then show "fst (removeRoute m i) = True" by (simp add: removeRoute_def map_delete_def)
  show "\<not> map_has (snd (removeRoute m i)) i"
    by (simp add: removeRoute_def map_delete_def map_has_def delete_notin_dom)
  show "snd (removeRoute m i) = filter (\<lambda>p. fst p \<noteq> i) m"
    by (simp add: removeRoute_def map_delete_def AList.delete_eq case_prod_unfold eq_commute)
next
  assume a: "\<not> map_has m i"
  then show "fst (removeRoute m i) = False" by (simp add: removeRoute_def map_delete_def)
  from a show "snd (removeRoute m i) = m" by (simp add: removeRoute_def map_delete_def map_has_def)
  from a show "\<exists>e. fst (updateRoute m i u) = Inl e"
    by (simp add: updateRoute_def map_has_get)
next
  fix k assume "k \<noteq> i"
  then show "map_get (snd (removeRoute m i)) k = map_get m k"
    by (simp add: removeRoute_def map_delete_def map_get_def)
qed

text \<open>Claim C9 at a present and at an absent id.\<close>

theorem removeRoute_total_witness:
  "removeRoute [(''route-1'', example_route)] ''route-1'' = (True, []) \<and>
   removeRoute [(''route-1'', example_route)] ''route-2'' = (False, [(''route-1'', example_route)]) \<and>
   (\<exists>e. fst (updateRoute [(''route-1'', example_route)] ''route-2'' recolour) = Inl e)"
proof -
  let ?m = "[(''route-1'', example_route)]"
  have a: "map_has ?m ''route-1''" and b: "\<not> map_has ?m ''route-2''"
    by (simp_all add: map_has_def)
  note t1 = removeRoute_total [of ?m "''route-1''" recolour]
  note t2 = removeRoute_total [of ?m "''route-2''" recolour]
  from t1 a have 1: "fst (removeRoute ?m ''route-1'') = True \<and>
      snd (removeRoute ?m ''route-1'') = filter (\<lambda>p. fst p \<noteq> ''route-1'') ?m"
    by blast
  from t2 b have 2: "fst (removeRoute ?m ''route-2'') = False \<and> snd (removeRoute ?m ''route-2'') = ?m"
    by blast
  from t2 b have 3: "\<exists>e. fst (updateRoute ?m ''route-2'' recolour) = Inl e"
    by blast
  from 1 have "removeRoute ?m ''route-1'' = (True, [])"
    by (cases "removeRoute ?m ''route-1''") simp
  moreover from 2 have "removeRoute ?m ''route-2'' = (False, ?m)"
    by (cases "removeRoute ?m ''route-2''") simp
  ultimately show ?thesis using 3 by simp
qed

section \<open>Validation against the ranges of the specification\<close>

text \<open>\<open>validateRoute\<close> accepts every route whose coordinates are valid in the words of the
  specification, and rejects every other route unless a coordinate is NaN.\<close>

lemma spec_valid_point_iff:
  "spec_valid_point c \<longleftrightarrow>
     (\<exists>lng lat. c = JArr [JNum lng, JNum lat] \<and> in_range (-180) 180 lng \<and> in_range (-90) 90 lat)"
  unfolding spec_valid_point_def
  by (auto simp: as_array_Some as_number_Some length_two split: option.splits)

lemma spec_valid_point_accepted: "spec_valid_point c \<Longrightarrow> validateCoord c = Inr ()"
  by (auto simp: spec_valid_point_iff validateCoord_ok_iff accepted_number_iff)

lemma accepted_point_spec_valid:
  "validateCoord c = Inr () \<Longrightarrow> \<not> has_NaN c \<Longrightarrow> spec_valid_point c"
  by (auto simp: spec_valid_point_iff validateCoord_ok_iff accepted_number_iff has_NaN_def)

lemma validateRoute_accepts_spec_valid:
  "spec_valid_coordinates r \<Longrightarrow> validateRoute r = Inr ()"
  by (auto simp: spec_valid_coordinates_def validateRoute_ok_iff list_all_iff
      spec_valid_point_accepted split: option.splits)

lemma validateRoute_rejects_unless_NaN:
  "\<not> spec_valid_coordinates r \<Longrightarrow>
   (\<forall>cs. route_coordinates r = Some cs \<longrightarrow> \<not> list_ex has_NaN cs) \<Longrightarrow>
   \<exists>e. validateRoute r = Inl e"
proof -
  assume a: "\<not> spec_valid_coordinates r"
    and b: "\<forall>cs. route_coordinates r = Some cs \<longrightarrow> \<not> list_ex has_NaN cs"
  have "validateRoute r \<noteq> Inr ()"
  proof
    assume "validateRoute r = Inr ()"
    then obtain cs where cs: "route_coordinates r = Some cs" "2 \<le> length cs"
      "\<forall>c \<in> set cs. validateCoord c = Inr ()"
      by (auto simp: validateRoute_ok_iff)
    with b have "\<forall>c \<in> set cs. spec_valid_point c"
      by (auto simp: list_ex_iff intro: accepted_point_spec_valid)
    with cs have "spec_valid_coordinates r"
      by (simp add: spec_valid_coordinates_def list_all_iff)
    with a show False by simp
  qed
  then show ?thesis by (cases "validateRoute r") auto
qed

text \<open>
  Claim C1 at a failing input. A route whose first longitude is NaN does not have its
  longitudes in the range from -180 to 180, yet \<open>validateRoute\<close> returns and \<open>addRoute\<close>
  stores the route: \<open>typeof NaN\<close> is \<open>'number'\<close> and both comparisons with NaN are false.
\<close>

theorem validateRoute_accepts_NaN:
  "\<not> spec_valid_coordinates nan_route \<and> validateRoute nan_route = Inr () \<and>
   addRoute [] nan_route = (Inr (), [(''route-1'', nan_route)])"
proof -
  have v: "validateRoute nan_route = Inr ()"
    by (simp add: validateRoute_def nan_route_def validateCoord_def)
  have i: "route_id nan_route = ''route-1''" by (simp add: nan_route_def)
  have "\<not> spec_valid_coordinates nan_route"
    by (simp add: spec_valid_coordinates_def nan_route_def spec_valid_point_def in_range_def)
  moreover have "addRoute [] nan_route = (Inr (), [(''route-1'', nan_route)])"
    by (simp add: addRoute_cases v i map_has_def map_set_def)
  ultimately show ?thesis using v by simp
qed

section \<open>The invariant of the registry\<close>

text \<open>The constructor establishes the invariant and every method keeps it.\<close>

lemma registry_inv_empty: "registry_inv []"
  by (simp add: registry_inv_def)

lemma registry_inv_map_set:
  "registry_inv m \<Longrightarrow> route_id r = k \<Longrightarrow> validateRoute r = Inr () \<Longrightarrow> registry_inv (map_set m k r)"
  using set_map_set [of m k r]
  by (auto simp: registry_inv_def distinct_map_set list_all_iff)

lemma registry_inv_addRoute: "registry_inv m \<Longrightarrow> registry_inv (snd (addRoute m r))"
  by (auto simp: addRoute_def registry_inv_map_set split: sum.splits)

lemma registry_inv_addRoutes: "registry_inv m \<Longrightarrow> registry_inv (snd (addRoutes m rs))"
proof (induction rs arbitrary: m)
  case Nil
  then show ?case by simp
next
  case (Cons r rs)
  from Cons.prems have "registry_inv (snd (addRoute m r))"
    by (rule registry_inv_addRoute)
  with Cons.IH show ?case
    by (cases "addRoute m r") (auto split: sum.splits)
qed

lemma registry_inv_new: "new_RoutesManager rs = Inr m \<Longrightarrow> registry_inv m"
  using registry_inv_addRoutes [OF registry_inv_empty, of rs]
  by (auto simp: new_RoutesManager_def split: prod.splits sum.splits)

lemma registry_inv_updateRoute: "registry_inv m \<Longrightarrow> registry_inv (snd (updateRoute m i u))"
  by (auto simp: updateRoute_def Let_def registry_inv_map_set merge_updates_id
      split: option.splits sum.splits)

lemma registry_inv_delete: "registry_inv m \<Longrightarrow> registry_inv (snd (map_delete m k))"
  using set_delete_subset [of k m]
  by (auto simp: registry_inv_def map_delete_def distinct_delete list_all_iff)

lemma registry_inv_removeRoute: "registry_inv m \<Longrightarrow> registry_inv (snd (removeRoute m i))"
  by (simp add: removeRoute_def registry_inv_delete)

lemma registry_inv_removeRoutes: "registry_inv m \<Longrightarrow> registry_inv (removeRoutes m ids)"
  by (induction ids arbitrary: m) (auto simp: registry_inv_delete)

lemma registry_inv_clearAll: "registry_inv (clearAll m)"
  by (simp add: clearAll_def registry_inv_def)

lemma registry_inv_get:
  "registry_inv m \<Longrightarrow> map_get m k = Some r \<Longrightarrow> route_id r = k \<and> validateRoute r = Inr ()"
  by (auto simp: registry_inv_def list_all_iff dest: map_get_in_set)

text \<open>What the invariant gives for a stored route: it is under its own id, and its
  coordinates are valid in the words of the specification unless one of them is NaN.\<close>

lemma registry_inv_spec_valid:
  assumes "registry_inv m" and "map_get m k = Some r"
    and "\<forall>cs. route_coordinates r = Some cs \<longrightarrow> \<not> list_ex has_NaN cs"
  shows "route_id r = k \<and> spec_valid_coordinates r"
proof -
  from assms(1,2) have a: "route_id r = k" and v: "validateRoute r = Inr ()"
    by (simp_all add: registry_inv_get)
  have "spec_valid_coordinates r"
  proof (rule ccontr)
    assume "\<not> spec_valid_coordinates r"
    from validateRoute_rejects_unless_NaN [OF this assms(3)] v show False by auto
  qed
  with a show ?thesis by simp
qed

text \<open>
  Claim C8 at a failing input. The constructor and \<open>updateRoute\<close> both leave a route in
  the registry whose first longitude is NaN, which is not a longitude in the range from
  -180 to 180.
\<close>

theorem registry_stores_NaN:
  "new_RoutesManager [nan_route] = Inr [(''route-1'', nan_route)] \<and>
   updateRoute [(''route-1'', example_route)] ''route-1''
     (no_updates\<lparr>upd_coordinates := Some (route_coordinates nan_route)\<rparr>) =
     (Inr (), [(''route-1'', example_route\<lparr>route_coordinates := route_coordinates nan_route\<rparr>)]) \<and>
   \<not> spec_valid_coordinates nan_route \<and>
   \<not> spec_valid_coordinates (example_route\<lparr>route_coordinates := route_coordinates nan_route\<rparr>)"
proof -
  have v: "validateRoute nan_route = Inr ()"
    by (simp add: validateRoute_def nan_route_def validateCoord_def)
  have i: "route_id nan_route = ''route-1''" by (simp add: nan_route_def)
  have a: "addRoute [] nan_route = (Inr (), [(''route-1'', nan_route)])"
    by (simp add: addRoute_cases v i map_has_def map_set_def)
  have 1: "new_RoutesManager [nan_route] = Inr [(''route-1'', nan_route)]"
    by (simp add: new_RoutesManager_def a)
  have m: "merge_updates example_route
      (no_updates\<lparr>upd_coordinates := Some (route_coordinates nan_route)\<rparr>) ''route-1'' =
      example_route\<lparr>route_coordinates := route_coordinates nan_route\<rparr>"
    by (simp add: merge_updates_def no_updates_def or_existing_def example_route_def)
  have v2: "validateRoute (example_route\<lparr>route_coordinates := route_coordinates nan_route\<rparr>) = Inr ()"
    by (simp add: validateRoute_def nan_route_def validateCoord_def)
  have 2: "updateRoute [(''route-1'', example_route)] ''route-1''
     (no_updates\<lparr>upd_coordinates := Some (route_coordinates nan_route)\<rparr>) =
     (Inr (), [(''route-1'', example_route\<lparr>route_coordinates := route_coordinates nan_route\<rparr>)])"
    by (simp add: updateRoute_def map_get_def m v2 map_set_def)
  have 3: "\<not> spec_valid_coordinates nan_route"
    by (simp add: spec_valid_coordinates_def nan_route_def spec_valid_point_def in_range_def)
  have 4: "\<not> spec_valid_coordinates (example_route\<lparr>route_coordinates := route_coordinates nan_route\<rparr>)"
    by (simp add: spec_valid_coordinates_def nan_route_def spec_valid_point_def in_range_def)
  from 1 2 3 4 show ?thesis by simp
qed

section \<open>Conversion to GeoJSON\<close>

text \<open>A property after a spread: that of the source when the source has it, else that
  of the target.\<close>

lemma map_of_spread_other: "k \<notin> fst ` set src \<Longrightarrow> map_of (spread t src) k = map_of t k"
  by (induction t src rule: spread.induct) (auto simp: set_prop_def update_conv')

lemma map_of_spread_source:
  "distinct (map fst src) \<Longrightarrow> (k, v) \<in> set src \<Longrightarrow> map_of (spread t src) k = Some v"
proof (induction t src rule: spread.induct)
  case (1 t)
  then show ?case by simp
next
  case (2 t k' v' src)
  show ?case
  proof (cases "k = k'")
    case True
    with 2 have "v = v'" and "k \<notin> fst ` set src" by force+
    then show ?thesis using True
      by (simp add: map_of_spread_other set_prop_def update_conv')
  next
    case False
    with 2 show ?thesis by auto
  qed
qed

lemma get_prop_spread_other:
  "k \<notin> fst ` set src \<Longrightarrow> get_prop (spread t src) k = get_prop t k"
  by (simp add: get_prop_def map_of_spread_other)

lemma get_prop_spread_source:
  "distinct (map fst src) \<Longrightarrow> (k, v) \<in> set src \<Longrightarrow> get_prop (spread t src) k = v"
  by (simp add: get_prop_def map_of_spread_source)

lemma route_feature_shape:
  "feature_type (route_feature r) = ''Feature'' \<and>
   feature_geometry (route_feature r) =
     Some \<lparr> geometry_type = ''LineString'',
            geometry_coordinates = array_value (route_coordinates r),
            geometry_other = [] \<rparr>"
  by (simp add: route_feature_def)

lemma route_feature_prop_base:
  assumes "k \<notin> fst ` set (route_extra r)"
  shows "feature_prop (route_feature r) k =
     get_prop [(''id'', JStr (route_id r)),
            (''name'', string_value (route_name r)),
            (''color'', JStr (color_or_default (route_color r))),
            (''lineWidth'', JNum (lineWidth_or_default (route_lineWidth r)))] k"
  using assms unfolding feature_prop_def route_feature_def route_extra_def
  by (simp add: get_prop_spread_other)

lemma route_feature_prop_extra:
  assumes "distinct (map fst (route_extra r))" "(k, v) \<in> set (route_extra r)"
  shows "feature_prop (route_feature r) k = v"
  using assms unfolding feature_prop_def route_feature_def route_extra_def
  by (simp add: get_prop_spread_source)

text \<open>
  Claim C3, as amended. \<open>toGeoJSON\<close> returns a FeatureCollection with one feature per
  entry of the registry, in order. Each is a Feature with a LineString geometry whose
  coordinates are those of the route. Its properties \<open>id\<close>, \<open>name\<close>, \<open>color\<close> and
  \<open>lineWidth\<close> are those of the route, unless the \<open>properties\<close> of the route have an
  entry of that name; the color is \<open>#FF0000\<close> when the route has none or the empty string,
  the lineWidth is 4 when the route has none, 0 or NaN. Every entry of the \<open>properties\<close>
  of the route is a property of the feature.
\<close>

theorem toGeoJSON_features:
  "collection_type (toGeoJSON m) = ''FeatureCollection'' \<and>
   length (collection_features (toGeoJSON m)) = length m \<and>
   (\<forall>j < length m.
      feature_type (collection_features (toGeoJSON m) ! j) = ''Feature'' \<and>
      feature_geometry (collection_features (toGeoJSON m) ! j) =
        Some \<lparr> geometry_type = ''LineString'',
               geometry_coordinates = array_value (route_coordinates (snd (m ! j))),
               geometry_other = [] \<rparr> \<and>
      (''id'' \<notin> fst ` set (route_extra (snd (m ! j))) \<longrightarrow>
         feature_prop (collection_features (toGeoJSON m) ! j) ''id'' = JStr (route_id (snd (m ! j)))) \<and>
      (''name'' \<notin> fst ` set (route_extra (snd (m ! j))) \<longrightarrow>
         feature_prop (collection_features (toGeoJSON m) ! j) ''name'' =
           string_value (route_name (snd (m ! j)))) \<and>
      (''color'' \<notin> fst ` set (route_extra (snd (m ! j))) \<longrightarrow>
         feature_prop (collection_features (toGeoJSON m) ! j) ''color'' =
           JStr (case route_color (snd (m ! j)) of
                   None \<Rightarrow> ''#FF0000''
                 | Some c \<Rightarrow> if c = [] then ''#FF0000'' else c)) \<and>
      (''lineWidth'' \<notin> fst ` set (route_extra (snd (m ! j))) \<longrightarrow>
         feature_prop (collection_features (toGeoJSON m) ! j) ''lineWidth'' =
           JNum (case route_lineWidth (snd (m ! j)) of
                   None \<Rightarrow> Fin 4
                 | Some w \<Rightarrow> if w = Fin 0 \<or> w = NaN then Fin 4 else w)) \<and>
      (distinct (map fst (route_extra (snd (m ! j)))) \<longrightarrow>
         (\<forall>k v. (k, v) \<in> set (route_extra (snd (m ! j))) \<longrightarrow>
            feature_prop (collection_features (toGeoJSON m) ! j) k = v)))"
proof (intro conjI allI impI)
  show "collection_type (toGeoJSON m) = ''FeatureCollection''"
    by (simp add: toGeoJSON_def)
  show "length (collection_features (toGeoJSON m)) = length m"
    by (simp add: toGeoJSON_def getAllRoutes_def)
next
  fix j assume j: "j < length m"
  then have f: "collection_features (toGeoJSON m) ! j = route_feature (snd (m ! j))"
    by (simp add: toGeoJSON_def getAllRoutes_def)
  show "feature_type (collection_features (toGeoJSON m) ! j) = ''Feature''"
    by (simp add: f route_feature_shape)
  show "feature_geometry (collection_features (toGeoJSON m) ! j) =
        Some \<lparr> geometry_type = ''LineString'',
               geometry_coordinates = array_value (route_coordinates (snd (m ! j))),
               geometry_other = [] \<rparr>"
    by (simp add: f route_feature_shape)
  {
    assume "''id'' \<notin> fst ` set (route_extra (snd (m ! j)))"
    then show "feature_prop (collection_features (toGeoJSON m) ! j) ''id'' = JStr (route_id (snd (m ! j)))"
      by (simp add: f route_feature_prop_base get_prop_def)
  }
  {
    assume "''name'' \<notin> fst ` set (route_extra (snd (m ! j)))"
    then show "feature_prop (collection_features (toGeoJSON m) ! j) ''name'' =
           string_value (route_name (snd (m ! j)))"
      by (simp add: f route_feature_prop_base get_prop_def)
  }
  {
    assume "''color'' \<notin> fst ` set (route_extra (snd (m ! j)))"
    then show "feature_prop (collection_features (toGeoJSON m) ! j) ''color'' =
           JStr (case route_color (snd (m ! j)) of
                   None \<Rightarrow> ''#FF0000''
                 | Some c \<Rightarrow> if c = [] then ''#FF0000'' else c)"
      by (simp add: f route_feature_prop_base get_prop_def color_or_default_def)
  }
  {
    assume "''lineWidth'' \<notin> fst ` set (route_extra (snd (m ! j)))"
    then show "feature_prop (collection_features (toGeoJSON m) ! j) ''lineWidth'' =
           JNum (case route_lineWidth (snd (m ! j)) of
                   None \<Rightarrow> Fin 4
                 | Some w \<Rightarrow> if w = Fin 0 \<or> w = NaN then Fin 4 else w)"
      by (simp add: f route_feature_prop_base get_prop_def lineWidth_or_default_def num_truthy_def
          split: option.splits)
  }
  {
    fix k v
    assume "distinct (map fst (route_extra (snd (m ! j))))"
      and "(k, v) \<in> set (route_extra (snd (m ! j)))"
    then show "feature_prop (collection_features (toGeoJSON m) ! j) k = v"
      by (simp add: f route_feature_prop_extra)
  }
qed

lemma addRoute_tagged:
  "addRoute [] tagged_route = (Inr (), [(''route-1'', tagged_route)])"
proof -
  have "validateRoute tagged_route = Inr ()"
    by (simp add: validateRoute_def tagged_route_def example_route_def validateCoord_def)
  moreover have "route_id tagged_route = ''route-1''"
    by (simp add: tagged_route_def example_route_def)
  ultimately show ?thesis by (simp add: addRoute_cases map_has_def map_set_def)
qed

lemma addRoute_hairline:
  "addRoute [] hairline_route = (Inr (), [(''route-1'', hairline_route)])"
proof -
  have "validateRoute hairline_route = Inr ()"
    by (simp add: validateRoute_def hairline_route_def example_route_def validateCoord_def)
  moreover have "route_id hairline_route = ''route-1''"
    by (simp add: hairline_route_def example_route_def)
  ultimately show ?thesis by (simp add: addRoute_cases map_has_def map_set_def)
qed

text \<open>
  Claim C3 as stated fails twice. A stored route with id \<open>route-1\<close> whose \<open>properties\<close>
  have an entry \<open>id\<close> gives a feature whose property \<open>id\<close> is that entry; a stored route
  with lineWidth 0 gives a feature with lineWidth 4.
\<close>

theorem toGeoJSON_properties_counterexample:
  "fst (addRoute [] tagged_route) = Inr () \<and>
   route_id tagged_route = ''route-1'' \<and>
   feature_prop (hd (collection_features (toGeoJSON (snd (addRoute [] tagged_route))))) ''id'' =
     JStr ''route-2'' \<and>
   fst (addRoute [] hairline_route) = Inr () \<and>
   route_lineWidth hairline_route = Some (Fin 0) \<and>
   feature_prop (hd (collection_features (toGeoJSON (snd (addRoute [] hairline_route))))) ''lineWidth'' =
     JNum (Fin 4)"
proof -
  have 1: "feature_prop (route_feature tagged_route) ''id'' = JStr ''route-2''"
    by (simp add: feature_prop_def route_feature_def tagged_route_def get_prop_def set_prop_def)
  have 2: "feature_prop (route_feature hairline_route) ''lineWidth'' = JNum (Fin 4)"
    by (simp add: feature_prop_def route_feature_def hairline_route_def get_prop_def set_prop_def
        lineWidth_or_default_def num_truthy_def example_route_def)
  show ?thesis
    by (simp add: addRoute_tagged addRoute_hairline toGeoJSON_def getAllRoutes_def 1 2)
      (simp add: tagged_route_def hairline_route_def example_route_def)
qed

text \<open>Claim C3, the amended theorem on a registry of two routes.\<close>

theorem toGeoJSON_features_witness:
  "length (collection_features (toGeoJSON [(''route-1'', example_route), (''route-2'', tagged_route)])) = 2 \<and>
   feature_prop (collection_features
      (toGeoJSON [(''route-1'', example_route), (''route-2'', tagged_route)]) ! 0) ''id'' = JStr ''route-1'' \<and>
   feature_prop (collection_features
      (toGeoJSON [(''route-1'', example_route), (''route-2'', tagged_route)]) ! 0) ''lineWidth'' = JNum (Fin 4) \<and>
   feature_prop (collection_features
      (toGeoJSON [(''route-1'', example_route), (''route-2'', tagged_route)]) ! 1) ''id'' = JStr ''route-2'' \<and>
   feature_prop (collection_features
      (toGeoJSON [(''route-1'', example_route), (''route-2'', tagged_route)]) ! 1) ''color'' = JStr ''#FF0000''"
proof -
  let ?m = "[(''route-1'', example_route), (''route-2'', tagged_route)]"
  have e0: "route_extra (snd (?m ! 0)) = []"
    by (simp add: route_extra_def example_route_def)
  have e1: "route_extra (snd (?m ! 1)) = [(''id'', JStr ''route-2'')]"
    by (simp add: route_extra_def tagged_route_def)
  have r0: "route_id (snd (?m ! 0)) = ''route-1'' \<and> route_lineWidth (snd (?m ! 0)) = None"
    by (simp add: example_route_def)
  have r1: "route_color (snd (?m ! 1)) = Some ''#FF0000''"
    by (simp add: tagged_route_def example_route_def)
  have l0: "0 < length ?m" and l1: "1 < length ?m" by simp_all
  note t = toGeoJSON_features [of ?m]
  from t have len: "length (collection_features (toGeoJSON ?m)) = length ?m" by blast
  from t l0 have p0: "(''id'' \<notin> fst ` set (route_extra (snd (?m ! 0))) \<longrightarrow>
         feature_prop (collection_features (toGeoJSON ?m) ! 0) ''id'' = JStr (route_id (snd (?m ! 0)))) \<and>
      (''lineWidth'' \<notin> fst ` set (route_extra (snd (?m ! 0))) \<longrightarrow>
         feature_prop (collection_features (toGeoJSON ?m) ! 0) ''lineWidth'' =
           JNum (case route_lineWidth (snd (?m ! 0)) of
                   None \<Rightarrow> Fin 4
                 | Some w \<Rightarrow> if w = Fin 0 \<or> w = NaN then Fin 4 else w))"
    by blast
  from t l1 have p1: "(''color'' \<notin> fst ` set (route_extra (snd (?m ! 1))) \<longrightarrow>
         feature_prop (collection_features (toGeoJSON ?m) ! 1) ''color'' =
           JStr (case route_color (snd (?m ! 1)) of
                   None \<Rightarrow> ''#FF0000''
                 | Some c \<Rightarrow> if c = [] then ''#FF0000'' else c)) \<and>
      (distinct (map fst (route_extra (snd (?m ! 1)))) \<longrightarrow>
         (\<forall>k v. (k, v) \<in> set (route_extra (snd (?m ! 1))) \<longrightarrow>
            feature_prop (collection_features (toGeoJSON ?m) ! 1) k = v))"
    by blast
  from p0 have a: "feature_prop (collection_features (toGeoJSON ?m) ! 0) ''id'' = JStr ''route-1''"
    and b: "feature_prop (collection_features (toGeoJSON ?m) ! 0) ''lineWidth'' = JNum (Fin 4)"
    unfolding e0 using r0 by simp_all
  from p1 have c: "feature_prop (collection_features (toGeoJSON ?m) ! 1) ''color'' = JStr ''#FF0000''"
    and d: "feature_prop (collection_features (toGeoJSON ?m) ! 1) ''id'' = JStr ''route-2''"
    unfolding e1 using r1 by simp_all
  from len a b c d show ?thesis by simp
qed

section \<open>Fetching and the map\<close>

lemma index0_error: "index0 v = Inl e \<Longrightarrow> e = TypeError"
  by (cases v) auto

lemma first_coordinate_error: "first_coordinate g = Inl e \<Longrightarrow> e = TypeError"
  by (auto simp: first_coordinate_def split: list.splits option.splits if_splits sum.splits
      dest: index0_error)

text \<open>The results of the two loaders on a response that is ok.\<close>

lemma load_ok_results:
  assumes "fetch ''/ottawa_da_boundaries.geojson'' = Inr response" "response_ok response"
  shows "loadOttawaDABoundaries fetch proj4 = Inl SyntaxError \<or>
         loadOttawaDABoundaries fetch proj4 = Inl TypeError \<or>
         (\<exists>g. response_json response = Some g \<and>
            loadOttawaDABoundaries fetch proj4 = Inr (transformGeoJSON3347To4326 proj4 g))"
  using assms
  by (auto simp: loadOttawaDABoundaries_def Let_def split: option.splits sum.splits
      dest: first_coordinate_error)

lemma fetch_ok_results:
  assumes "fetch url = Inr response" "response_ok response"
  shows "fetchGeoJSON fetch url c w = Inl SyntaxError \<or>
         fetchGeoJSON fetch url c w = Inl (Error ''Invalid GeoJSON: Expected FeatureCollection'') \<or>
         (\<exists>g. response_json response = Some g \<and>
            fetchGeoJSON fetch url c w =
              Inr (normalizeGeoJSON g (Some (default_arg c ''#FF0000'')) (Some (default_arg w (Fin 4)))))"
  using assms
  by (auto simp: fetchGeoJSON_def split: option.splits)

text \<open>
  Claim C6. When the response is not ok, \<open>loadOttawaDABoundaries\<close> and \<open>fetchGeoJSON\<close>
  throw an Error whose message is a fixed prefix followed by the status text of the
  response. When the response is ok, neither throws an error with that prefix, whatever
  the text after it.
\<close>

theorem fetch_status_error:
  "(fetch ''/ottawa_da_boundaries.geojson'' = Inr response \<and> \<not> response_ok response \<longrightarrow>
      loadOttawaDABoundaries fetch proj4 =
        Inl (Error (''Failed to load DA boundaries: '' @ response_statusText response))) \<and>
   (fetch url = Inr response \<and> \<not> response_ok response \<longrightarrow>
      fetchGeoJSON fetch url c w =
        Inl (Error (''Failed to fetch GeoJSON: '' @ response_statusText response))) \<and>
   (fetch ''/ottawa_da_boundaries.geojson'' = Inr response \<and> response_ok response \<longrightarrow>
      (\<forall>s. loadOttawaDABoundaries fetch proj4 \<noteq> Inl (Error (''Failed to load DA boundaries: '' @ s)))) \<and>
   (fetch url = Inr response \<and> response_ok response \<longrightarrow>
      (\<forall>s. fetchGeoJSON fetch url c w \<noteq> Inl (Error (''Failed to fetch GeoJSON: '' @ s))))"
proof (intro conjI impI allI)
  assume "fetch ''/ottawa_da_boundaries.geojson'' = Inr response \<and> \<not> response_ok response"
  then show "loadOttawaDABoundaries fetch proj4 =
        Inl (Error (''Failed to load DA boundaries: '' @ response_statusText response))"
    by (simp add: loadOttawaDABoundaries_def)
next
  assume "fetch url = Inr response \<and> \<not> response_ok response"
  then show "fetchGeoJSON fetch url c w =
        Inl (Error (''Failed to fetch GeoJSON: '' @ response_statusText response))"
    by (simp add: fetchGeoJSON_def)
next
  fix s
  assume "fetch ''/ottawa_da_boundaries.geojson'' = Inr response \<and> response_ok response"
  then have "fetch ''/ottawa_da_boundaries.geojson'' = Inr response" "response_ok response"
    by simp_all
  from load_ok_results [of fetch response proj4, OF this]
  show "loadOttawaDABoundaries fetch proj4 \<noteq> Inl (Error (''Failed to load DA boundaries: '' @ s))"
    by auto
next
  fix s
  assume "fetch url = Inr response \<and> response_ok response"
  then have "fetch url = Inr response" "response_ok response"
    by simp_all
  from fetch_ok_results [of fetch url response c w, OF this]
  show "fetchGeoJSON fetch url c w \<noteq> Inl (Error (''Failed to fetch GeoJSON: '' @ s))"
    by auto
qed

text \<open>Claim C6 at a response \<open>Not Found\<close> and at a response \<open>OK\<close>.\<close>

theorem fetch_status_error_witness:
  "loadOttawaDABoundaries failing_fetch identity_projection =
     Inl (Error ''Failed to load DA boundaries: Not Found'') \<and>
   fetchGeoJSON failing_fetch ''/api/routes'' None None =
     Inl (Error ''Failed to fetch GeoJSON: Not Found'') \<and>
   loadOttawaDABoundaries working_fetch identity_projection \<noteq>
     Inl (Error ''Failed to load DA boundaries: OK'') \<and>
   fetchGeoJSON working_fetch ''/api/routes'' None None \<noteq>
     Inl (Error ''Failed to fetch GeoJSON: OK'')"
proof -
  let ?p = identity_projection
  have b: "\<not> response_ok not_found_response" "response_statusText not_found_response = ''Not Found''"
    by (simp_all add: not_found_response_def)
  have g: "response_ok ok_response"
    by (simp add: ok_response_def)
  have fb: "failing_fetch u = Inr not_found_response" and fg: "working_fetch u = Inr ok_response" for u
    by (simp_all add: failing_fetch_def working_fetch_def)
  note t1 = fetch_status_error [of failing_fetch not_found_response ?p "''/api/routes''" None None]
  note t2 = fetch_status_error [of working_fetch ok_response ?p "''/api/routes''" None None]
  from t1 b fb have 1: "loadOttawaDABoundaries failing_fetch ?p =
      Inl (Error (''Failed to load DA boundaries: '' @ response_statusText not_found_response))"
    by blast
  from t1 b fb have 2: "fetchGeoJSON failing_fetch ''/api/routes'' None None =
      Inl (Error (''Failed to fetch GeoJSON: '' @ response_statusText not_found_response))"
    by blast
  from t2 g fg have 3: "loadOttawaDABoundaries working_fetch ?p \<noteq>
      Inl (Error (''Failed to load DA boundaries: '' @ ''OK''))"
    by blast
  from t2 g fg have 4: "fetchGeoJSON working_fetch ''/api/routes'' None None \<noteq>
      Inl (Error (''Failed to fetch GeoJSON: '' @ ''OK''))"
    by blast
  from 1 2 3 4 show ?thesis by (simp add: b)
qed

text \<open>With the variable undefined the map is constructed with the default style, and
  with the variable a string it is constructed with that string, whenever the effect
  constructs the map; and it constructs the map whenever none exists yet and the
  container is there.\<close>

lemma Map_style:
  "(\<forall>opts. Map_create mapExists container styleUrl = Some opts \<longrightarrow>
      option_style opts =
        (case styleUrl of
           None \<Rightarrow> ''https://tiles.openfreemap.org/styles/bright''
         | Some url \<Rightarrow> url)) \<and>
   (\<not> mapExists \<longrightarrow> (\<exists>opts. Map_create mapExists (Some c) styleUrl = Some opts))"
proof (intro conjI allI impI)
  fix opts
  assume a: "Map_create mapExists container styleUrl = Some opts"
  then obtain c' where c': "container = Some c'"
    by (cases container) (simp_all add: Map_create_def)
  with a have "\<not> mapExists"
    by (auto simp: Map_create_def split: if_splits)
  with a c' have "option_style opts = nullish_or styleUrl defaultStyle"
    by (auto simp: Map_create_def)
  then show "option_style opts =
        (case styleUrl of
           None \<Rightarrow> ''https://tiles.openfreemap.org/styles/bright''
         | Some url \<Rightarrow> url)"
    by (simp add: nullish_or_def defaultStyle_def)
next
  assume "\<not> mapExists"
  then show "\<exists>opts. Map_create mapExists (Some c) styleUrl = Some opts"
    by (simp add: Map_create_def)
qed

text \<open>
  Claim C7 at a failing input. With \<open>VITE_MAP_STYLE_URL\<close> the empty string the effect
  takes the variable for not set, since \<open>!styleUrl\<close> holds and it logs that it uses the
  default style; yet the map is constructed with the empty style and not with
  \<open>https://tiles.openfreemap.org/styles/bright\<close>, since \<open>styleUrl ?? defaultStyle\<close> replaces
  \<open>undefined\<close> only.
\<close>

theorem Map_empty_style:
  "Map_warns (Some []) \<and>
   Map_create False (Some c) (Some []) =
     Some \<lparr> option_container = c, option_style = [],
            option_center = DEFAULT_CENTER, option_zoom = DEFAULT_ZOOM \<rparr> \<and>
   Map_create False (Some c) None =
     Some \<lparr> option_container = c, option_style = ''https://tiles.openfreemap.org/styles/bright'',
            option_center = DEFAULT_CENTER, option_zoom = DEFAULT_ZOOM \<rparr> \<and>
   map_option option_style (Map_create False (Some c) (Some [])) \<noteq>
     Some ''https://tiles.openfreemap.org/styles/bright''"
  by (simp add: Map_warns_def Map_create_def nullish_or_def defaultStyle_def)

text \<open>The effect constructs no map when one exists or the container is missing.\<close>

lemma Map_no_create: "Map_create True container styleUrl = None \<and> Map_create mapExists None styleUrl = None"
  by (simp add: Map_create_def split: option.splits)

section \<open>Reprojection of a feature collection\<close>

text \<open>Filtering out \<open>null\<close> after \<open>map\<close> keeps, in order, what the callback returned.\<close>

lemma kept_features_concat:
  "map the (filter (\<lambda>f. f \<noteq> None) (map g xs)) =
     concat (map (\<lambda>x. case g x of None \<Rightarrow> [] | Some y \<Rightarrow> [y]) xs)"
  by (induction xs) (auto split: option.splits)

lemma transform_feature_cases:
  "(case transform_feature proj4 f of None \<Rightarrow> [] | Some f' \<Rightarrow> [f']) =
     (case feature_geometry f of
        None \<Rightarrow> []
      | Some g \<Rightarrow>
          if geometry_type g = ''Polygon''
          then (case transformPolygonCoordinates proj4 (geometry_coordinates g) of
                  Inl e \<Rightarrow> []
                | Inr cs \<Rightarrow> [f\<lparr>feature_geometry := Some (g\<lparr>geometry_coordinates := cs\<rparr>)\<rparr>])
          else [f])"
  by (simp add: transform_feature_def transform_feature_try_def split: sum.splits option.splits)

lemma transform_feature_keeps:
  "transform_feature proj4 f = Some f' \<Longrightarrow>
     feature_type f' = feature_type f \<and> feature_properties f' = feature_properties f \<and>
     feature_other f' = feature_other f \<and>
     map_option geometry_type (feature_geometry f') = map_option geometry_type (feature_geometry f) \<and>
     map_option geometry_other (feature_geometry f') = map_option geometry_other (feature_geometry f)"
  by (auto simp: transform_feature_def transform_feature_try_def
      split: sum.splits if_splits option.splits)

lemma transformed_features_origin:
  "f' \<in> set (collection_features (transformGeoJSON3347To4326 proj4 g)) \<Longrightarrow>
     \<exists>f \<in> set (collection_features g). transform_feature proj4 f = Some f'"
  by (auto simp: transformGeoJSON3347To4326_def)

text \<open>
  Claim C10, as amended. \<open>transformGeoJSON3347To4326\<close> has no error result. Its features
  are those of the input, in order, where a feature without a geometry is left out, a
  feature whose geometry is not a Polygon is itself, a Polygon whose coordinates fail to
  transform is left out, and a Polygon whose coordinates transform is the feature with
  the new coordinates. So the output has at most as many features as the input, every
  output feature has the type, properties and other members of an input feature and the
  type and other members of its geometry, and the other members of the collection are
  kept.
\<close>

theorem transformGeoJSON_drops_failures:
  "length (collection_features (transformGeoJSON3347To4326 proj4 g)) \<le> length (collection_features g) \<and>
   collection_type (transformGeoJSON3347To4326 proj4 g) = collection_type g \<and>
   collection_other (transformGeoJSON3347To4326 proj4 g) = collection_other g \<and>
   collection_features (transformGeoJSON3347To4326 proj4 g) =
     concat (map (\<lambda>f.
        case feature_geometry f of
          None \<Rightarrow> []
        | Some geom \<Rightarrow>
            if geometry_type geom = ''Polygon''
            then (case transformPolygonCoordinates proj4 (geometry_coordinates geom) of
                    Inl e \<Rightarrow> []
                  | Inr cs \<Rightarrow> [f\<lparr>feature_geometry := Some (geom\<lparr>geometry_coordinates := cs\<rparr>)\<rparr>])
            else [f]) (collection_features g)) \<and>
   (\<forall>f' \<in> set (collection_features (transformGeoJSON3347To4326 proj4 g)).
      \<exists>f \<in> set (collection_features g).
        feature_type f' = feature_type f \<and> feature_properties f' = feature_properties f \<and>
        feature_other f' = feature_other f \<and>
        map_option geometry_type (feature_geometry f') = map_option geometry_type (feature_geometry f) \<and>
        map_option geometry_other (feature_geometry f') = map_option geometry_other (feature_geometry f))"
proof (intro conjI ballI)
  show "length (collection_features (transformGeoJSON3347To4326 proj4 g)) \<le> length (collection_features g)"
    using length_filter_le [of "\<lambda>f. f \<noteq> None" "map (transform_feature proj4) (collection_features g)"]
    by (simp add: transformGeoJSON3347To4326_def)
  show "collection_type (transformGeoJSON3347To4326 proj4 g) = collection_type g"
    by (simp add: transformGeoJSON3347To4326_def)
  show "collection_other (transformGeoJSON3347To4326 proj4 g) = collection_other g"
    by (simp add: transformGeoJSON3347To4326_def)
  show "collection_features (transformGeoJSON3347To4326 proj4 g) =
     concat (map (\<lambda>f.
        case feature_geometry f of
          None \<Rightarrow> []
        | Some geom \<Rightarrow>
            if geometry_type geom = ''Polygon''
            then (case transformPolygonCoordinates proj4 (geometry_coordinates geom) of
                    Inl e \<Rightarrow> []
                  | Inr cs \<Rightarrow> [f\<lparr>feature_geometry := Some (geom\<lparr>geometry_coordinates := cs\<rparr>)\<rparr>])
            else [f]) (collection_features g))"
    unfolding transformGeoJSON3347To4326_def kept_features_concat transform_feature_cases
    by simp
next
  fix f' assume "f' \<in> set (collection_features (transformGeoJSON3347To4326 proj4 g))"
  then obtain f where "f \<in> set (collection_features g)" "transform_feature proj4 f = Some f'"
    by (blast dest: transformed_features_origin)
  then show "\<exists>f \<in> set (collection_features g).
        feature_type f' = feature_type f \<and> feature_properties f' = feature_properties f \<and>
        feature_other f' = feature_other f \<and>
        map_option geometry_type (feature_geometry f') = map_option geometry_type (feature_geometry f) \<and>
        map_option geometry_other (feature_geometry f') = map_option geometry_other (feature_geometry f)"
    by (blast dest: transform_feature_keeps)
qed

lemma transform_triangle:
  "transformPolygonCoordinates scaling_projection triangle =
     Inr (JArr [JArr [JArr [JNum (Fin 1), JNum (Fin 2)],
                      JArr [JNum (Fin 3), JNum (Fin 2)],
                      JArr [JNum (Fin 1), JNum (Fin 2)]]])"
  by (simp add: transformPolygonCoordinates_def transformCoordinateArray_def array_map_def
      triangle_def transformCoordinates3347To4326_def elem_def isNaN_def scaling_projection_def)

lemma transform_broken_ring:
  "transformPolygonCoordinates scaling_projection broken_ring =
     Inl (InvalidCoordinates (JNum NaN) (JNum (Fin 2000)))"
  by (simp add: transformPolygonCoordinates_def transformCoordinateArray_def array_map_def
      broken_ring_def transformCoordinates3347To4326_def elem_def isNaN_def scaling_projection_def)

text \<open>
  Claim C10 as stated fails: a feature whose geometry is \<open>null\<close> is not a Polygon, and it
  is not passed through; the read of \<open>feature.geometry.type\<close> throws inside the \<open>try\<close>
  block and the feature is left out.
\<close>

theorem transformGeoJSON_unlocated_counterexample:
  "feature_geometry unlocated_feature = None \<and>
   collection_features unlocated_collection = [unlocated_feature] \<and>
   collection_features (transformGeoJSON3347To4326 scaling_projection unlocated_collection) = []"
  by (simp add: unlocated_feature_def unlocated_collection_def transformGeoJSON3347To4326_def
      transform_feature_def transform_feature_try_def)

text \<open>Claim C10, the amended theorem on a collection of four features, of which the
  second and the fourth are left out.\<close>

theorem transformGeoJSON_drops_failures_witness:
  "collection_features (transformGeoJSON3347To4326 scaling_projection example_collection) =
     [polygon_feature (JArr [JArr [JArr [JNum (Fin 1), JNum (Fin 2)],
                                   JArr [JNum (Fin 3), JNum (Fin 2)],
                                   JArr [JNum (Fin 1), JNum (Fin 2)]]]),
      point_feature] \<and>
   length (collection_features (transformGeoJSON3347To4326 scaling_projection example_collection)) \<le> 4 \<and>
   collection_other (transformGeoJSON3347To4326 scaling_projection example_collection) =
     [(''name'', JStr ''ottawa_da_boundaries'')]"
proof -
  note t = transformGeoJSON_drops_failures [of scaling_projection example_collection]
  have fs: "collection_features example_collection =
      [polygon_feature triangle, polygon_feature broken_ring, point_feature, unlocated_feature]"
    and o: "collection_other example_collection = [(''name'', JStr ''ottawa_da_boundaries'')]"
    by (simp_all add: example_collection_def)
  have p: "feature_geometry (polygon_feature cs) =
      Some \<lparr> geometry_type = ''Polygon'', geometry_coordinates = cs, geometry_other = [] \<rparr>"
    "(polygon_feature cs)\<lparr>feature_geometry :=
        Some \<lparr> geometry_type = ''Polygon'', geometry_coordinates = cs', geometry_other = [] \<rparr>\<rparr> =
      polygon_feature cs'"
    for cs cs'
    by (simp_all add: polygon_feature_def)
  have q: "feature_geometry point_feature =
      Some \<lparr> geometry_type = ''Point'',
             geometry_coordinates = JArr [JNum (Fin 1000), JNum (Fin 2000)],
             geometry_other = [] \<rparr>"
    by (simp add: point_feature_def)
  have u: "feature_geometry unlocated_feature = None"
    by (simp add: unlocated_feature_def)
  from t have "collection_features (transformGeoJSON3347To4326 scaling_projection example_collection) =
     concat (map (\<lambda>f.
        case feature_geometry f of
          None \<Rightarrow> []
        | Some geom \<Rightarrow>
            if geometry_type geom = ''Polygon''
            then (case transformPolygonCoordinates scaling_projection (geometry_coordinates geom) of
                    Inl e \<Rightarrow> []
                  | Inr cs \<Rightarrow> [f\<lparr>feature_geometry := Some (geom\<lparr>geometry_coordinates := cs\<rparr>)\<rparr>])
            else [f]) (collection_features example_collection))"
    by blast
  then have 1: "collection_features (transformGeoJSON3347To4326 scaling_projection example_collection) =
     [polygon_feature (JArr [JArr [JArr [JNum (Fin 1), JNum (Fin 2)],
                                   JArr [JNum (Fin 3), JNum (Fin 2)],
                                   JArr [JNum (Fin 1), JNum (Fin 2)]]]),
      point_feature]"
    by (simp add: fs p q u transform_triangle transform_broken_ring)
  from t have 2: "length (collection_features (transformGeoJSON3347To4326 scaling_projection example_collection))
      \<le> length (collection_features example_collection)"
    by blast
  from t have 3: "collection_other (transformGeoJSON3347To4326 scaling_projection example_collection) =
      collection_other example_collection"
    by blast
  from 1 2 3 show ?thesis by (simp add: fs o)
qed

end
